theory Spec2Isabelle
  imports Complex_Main "HOL-Library.AList"
begin

section \<open>JavaScript values used by the handlers\<close>

text \<open>
  A JavaScript string is modelled as a \<open>string\<close> whose characters stand for the UTF-16
  code units below 256; \<open>length\<close> is then the \<open>.length\<close> of the source. Texts with
  other code units are outside the model. The strings inside a parsed JSON value are
  kept as lists of code units (natural numbers), so that a \<open>\u\<close> escape of a JSON text
  has a value whatever its code.
\<close>

datatype error = Error (message: string)

type_synonym units = "nat list"

definition units :: "string \<Rightarrow> units" where
  "units s = map of_char s"

text \<open>
  A number is kept as the exact rational it denotes (every double is one); the handlers
  compare numbers only with zero and one, which rounding to a double does not disturb.
\<close>

type_synonym number = rat

datatype json =
    JNull
  | JBool bool
  | JNum number
  | JStr units
  | JArr "json list"
  | JObj "(units \<times> json) list"

text \<open>
  Truthiness of \<open>if (cached)\<close>: \<open>null\<close>, \<open>false\<close>, the empty string and a number
  that is zero as a double are falsy. A decimal rounds to the double zero exactly when
  its magnitude is at most \<open>2 ^ -1075\<close>, half of the least subnormal.
\<close>

fun js_truthy :: "json \<Rightarrow> bool" where
  "js_truthy JNull = False"
| "js_truthy (JBool b) = b"
| "js_truthy (JNum x) = (1 < \<bar>x\<bar> * 2 ^ 1075)"
| "js_truthy (JStr u) = (u \<noteq> [])"
| "js_truthy (JArr xs) = True"
| "js_truthy (JObj kvs) = True"

text \<open>
  The value of an optional JSON value that passes a test such as \<open>if (cached)\<close>:
  \<open>undefined\<close> and the falsy values do not.
\<close>

definition truthy :: "json option \<Rightarrow> json option" where
  "truthy x =
     (case x of
        None \<Rightarrow> None
      | Some c \<Rightarrow> if js_truthy c then Some c else None)"

subsection \<open>String.prototype.trim, toLowerCase, includes\<close>

definition is_js_space :: "char \<Rightarrow> bool" where
  "is_js_space c = (of_char c \<in> {9, 10, 11, 12, 13, 32, 160 :: nat})"

definition trim :: "string \<Rightarrow> string" where
  "trim s = rev (dropWhile is_js_space (rev (dropWhile is_js_space s)))"

definition toLowerChar :: "char \<Rightarrow> char" where
  "toLowerChar c =
     (let n = of_char c :: nat
      in if (65 \<le> n \<and> n \<le> 90) \<or> (192 \<le> n \<and> n \<le> 222 \<and> n \<noteq> 215)
         then char_of (n + 32) else c)"

definition toLowerCase :: "string \<Rightarrow> string" where
  "toLowerCase s = map toLowerChar s"

fun startsWith :: "string \<Rightarrow> string \<Rightarrow> bool" where
  "startsWith s [] = True"
| "startsWith [] (k # ks) = False"
| "startsWith (c # cs) (k # ks) = (c = k \<and> startsWith cs ks)"

fun includes_str :: "string \<Rightarrow> string \<Rightarrow> bool" where
  "includes_str [] k = (k = [])"
| "includes_str (c # cs) k = (startsWith (c # cs) k \<or> includes_str cs k)"

section \<open>JSON.parse\<close>

text \<open>
  \<open>JSON.parse\<close> is a built-in of the runtime. It is modelled here after the JSON
  grammar (ECMA-404): white space is space, tab, line feed and carriage return; a value
  is an object, an array, a string, a number, \<open>true\<close>, \<open>false\<close> or \<open>null\<close>; the whole
  text is one value between optional white space. A later duplicate key of an object
  replaces the value of the earlier one.
\<close>

definition is_ws :: "char \<Rightarrow> bool" where
  "is_ws c = (of_char c \<in> {32, 9, 10, 13 :: nat})"

definition skip_ws :: "string \<Rightarrow> string" where
  "skip_ws s = dropWhile is_ws s"

definition is_digit :: "char \<Rightarrow> bool" where
  "is_digit c = (48 \<le> (of_char c :: nat) \<and> (of_char c :: nat) \<le> 57)"

definition digit_val :: "char \<Rightarrow> int" where
  "digit_val c = int (of_char c) - 48"

definition digits_val :: "string \<Rightarrow> int" where
  "digits_val ds = foldl (\<lambda>a c. 10 * a + digit_val c) 0 ds"

definition hex_val :: "char \<Rightarrow> nat option" where
  "hex_val c =
     (let n = of_char c :: nat
      in if 48 \<le> n \<and> n \<le> 57 then Some (n - 48)
         else if 65 \<le> n \<and> n \<le> 70 then Some (n - 55)
         else if 97 \<le> n \<and> n \<le> 102 then Some (n - 87)
         else None)"

definition hex4 :: "string \<Rightarrow> nat option" where
  "hex4 s =
     (case map hex_val (take 4 s) of
        [Some a, Some b, Some c, Some d] \<Rightarrow> Some (((a * 16 + b) * 16 + c) * 16 + d)
      | _ \<Rightarrow> None)"

definition escape_unit :: "char \<Rightarrow> nat option" where
  "escape_unit c =
     (if c = CHR 0x22 then Some 34
      else if c = CHR 0x5C then Some 92
      else if c = CHR ''/'' then Some 47
      else if c = CHR ''b'' then Some 8
      else if c = CHR ''f'' then Some 12
      else if c = CHR ''n'' then Some 10
      else if c = CHR ''r'' then Some 13
      else if c = CHR ''t'' then Some 9
      else None)"

text \<open>The characters of a string literal after its opening quote, up to the closing one.\<close>

fun parse_string :: "string \<Rightarrow> units \<Rightarrow> (units \<times> string) option" where
  "parse_string [] acc = None"
| "parse_string (c # t) acc =
     (if c = CHR 0x22 then Some (acc, t)
      else if c = CHR 0x5C then
        (case t of
           [] \<Rightarrow> None
         | e # t' \<Rightarrow>
             if e = CHR ''u'' then
               (case hex4 t' of
                  None \<Rightarrow> None
                | Some u \<Rightarrow> parse_string (drop 4 t') (acc @ [u]))
             else
               (case escape_unit e of
                  None \<Rightarrow> None
                | Some u \<Rightarrow> parse_string t' (acc @ [u])))
      else if (of_char c :: nat) < 32 then None
      else parse_string t (acc @ [of_char c]))"

text \<open>
  A number: an optional minus, an integer part without a leading zero, an optional
  fraction, an optional exponent.
\<close>

definition parse_exponent :: "string \<Rightarrow> (int \<times> string) option" where
  "parse_exponent s =
     (case s of
        [] \<Rightarrow> Some (0, s)
      | c # t \<Rightarrow>
          if c = CHR ''e'' \<or> c = CHR ''E'' then
            (let (neg, t1) =
                   (case t of
                      [] \<Rightarrow> (False, t)
                    | d # t' \<Rightarrow>
                        if d = CHR ''-'' then (True, t')
                        else if d = CHR ''+'' then (False, t')
                        else (False, t));
                 ds = takeWhile is_digit t1
             in if ds = [] then None
                else Some ((if neg then - digits_val ds else digits_val ds),
                           dropWhile is_digit t1))
          else Some (0, s))"

definition parse_fraction :: "string \<Rightarrow> (string \<times> string) option" where
  "parse_fraction s =
     (case s of
        [] \<Rightarrow> Some ([], s)
      | c # t \<Rightarrow>
          if c = CHR ''.'' then
            (let ds = takeWhile is_digit t
             in if ds = [] then None else Some (ds, dropWhile is_digit t))
          else Some ([], s))"

definition parse_int_part :: "string \<Rightarrow> (string \<times> string) option" where
  "parse_int_part s =
     (case s of
        [] \<Rightarrow> None
      | c # t \<Rightarrow>
          if c = CHR ''0'' then Some ([c], t)
          else if is_digit c then Some (takeWhile is_digit s, dropWhile is_digit s)
          else None)"

definition decimal :: "int \<Rightarrow> int \<Rightarrow> number" where
  "decimal m e = (if 0 \<le> e then of_int m * 10 ^ nat e else of_int m / 10 ^ nat (- e))"

definition parse_number :: "string \<Rightarrow> (json \<times> string) option" where
  "parse_number s =
     (let (neg, s1) =
            (case s of
               [] \<Rightarrow> (False, s)
             | c # t \<Rightarrow> if c = CHR ''-'' then (True, t) else (False, s))
      in case parse_int_part s1 of
           None \<Rightarrow> None
         | Some (ip, s2) \<Rightarrow>
             (case parse_fraction s2 of
                None \<Rightarrow> None
              | Some (fp, s3) \<Rightarrow>
                  (case parse_exponent s3 of
                     None \<Rightarrow> None
                   | Some (ex, s4) \<Rightarrow>
                       Some (JNum (decimal (if neg then - digits_val (ip @ fp)
                                                   else digits_val (ip @ fp))
                                          (ex - int (length fp))), s4))))"

datatype 'a parse_result = OutOfFuel | SyntaxError | Parsed 'a string

text \<open>
  The recursive descent over values. The first argument bounds the number of nested and
  consecutive values still to be read; \<open>JSON_parse\<close> starts it above twice the length of
  the text, which \<open>parse_value_fuel\<close> below shows to be enough.
\<close>

fun parse_value :: "nat \<Rightarrow> string \<Rightarrow> json parse_result"
  and parse_elements :: "nat \<Rightarrow> string \<Rightarrow> json list \<Rightarrow> json parse_result"
  and parse_members :: "nat \<Rightarrow> string \<Rightarrow> (units \<times> json) list \<Rightarrow> json parse_result"
where
  "parse_value 0 s = OutOfFuel"
| "parse_value (Suc n) s =
     (case s of
        [] \<Rightarrow> SyntaxError
      | c # t \<Rightarrow>
          if c = CHR ''{'' then
            (case skip_ws t of
               [] \<Rightarrow> SyntaxError
             | d # r \<Rightarrow> if d = CHR ''}'' then Parsed (JObj []) r
                        else parse_members n (d # r) [])
          else if c = CHR ''['' then
            (case skip_ws t of
               [] \<Rightarrow> SyntaxError
             | d # r \<Rightarrow> if d = CHR '']'' then Parsed (JArr []) r
                        else parse_elements n (d # r) [])
          else if c = CHR 0x22 then
            (case parse_string t [] of
               None \<Rightarrow> SyntaxError
             | Some (u, r) \<Rightarrow> Parsed (JStr u) r)
          else if startsWith s ''true'' then Parsed (JBool True) (drop 4 s)
          else if startsWith s ''false'' then Parsed (JBool False) (drop 5 s)
          else if startsWith s ''null'' then Parsed JNull (drop 4 s)
          else
            (case parse_number s of
               None \<Rightarrow> SyntaxError
             | Some (v, r) \<Rightarrow> Parsed v r))"
| "parse_elements 0 s acc = OutOfFuel"
| "parse_elements (Suc n) s acc =
     (case parse_value n s of
        OutOfFuel \<Rightarrow> OutOfFuel
      | SyntaxError \<Rightarrow> SyntaxError
      | Parsed v r \<Rightarrow>
          (case skip_ws r of
             [] \<Rightarrow> SyntaxError
           | d # r' \<Rightarrow>
               if d = CHR '','' then parse_elements n (skip_ws r') (acc @ [v])
               else if d = CHR '']'' then Parsed (JArr (acc @ [v])) r'
               else SyntaxError))"
| "parse_members 0 s acc = OutOfFuel"
| "parse_members (Suc n) s acc =
     (case s of
        [] \<Rightarrow> SyntaxError
      | q # t \<Rightarrow>
          if q \<noteq> CHR 0x22 then SyntaxError
          else
            (case parse_string t [] of
               None \<Rightarrow> SyntaxError
             | Some (k, r) \<Rightarrow>
                 (case skip_ws r of
                    [] \<Rightarrow> SyntaxError
                  | col # r1 \<Rightarrow>
                      if col \<noteq> CHR '':'' then SyntaxError
                      else
                        (case parse_value n (skip_ws r1) of
                           OutOfFuel \<Rightarrow> OutOfFuel
                         | SyntaxError \<Rightarrow> SyntaxError
                         | Parsed v r2 \<Rightarrow>
                             (case skip_ws r2 of
                                [] \<Rightarrow> SyntaxError
                              | d # r3 \<Rightarrow>
                                  if d = CHR '','' then
                                    parse_members n (skip_ws r3) (AList.update k v acc)
                                  else if d = CHR ''}'' then
                                    Parsed (JObj (AList.update k v acc)) r3
                                  else SyntaxError)))))"

definition JSON_parse :: "string \<Rightarrow> json option" where
  "JSON_parse text =
     (case parse_value (Suc (2 * length text)) (skip_ws text) of
        Parsed v r \<Rightarrow> if skip_ws r = [] then Some v else None
      | _ \<Rightarrow> None)"

section \<open>The fallback orchestrator of the edge functions\<close>

text \<open>
  A provider is a name and a function of the request; what the remote service answers
  is not part of the program, so the adapters are taken from an environment. A failed
  call throws an \<open>Error\<close>, modelled as \<open>Inl\<close>. The lines the loop writes to the console
  are kept as a log, which records which providers were invoked, and in what order.
\<close>

record ('q, 'a) provider =
  name :: string
  fn :: "'q \<Rightarrow> error + 'a"

datatype log_line = Trying string | Succeeded string | Failed string string

text \<open>
  The loop \<open>for (const provider of providers) { try { ... return result } catch (error)
  { lastError = error; continue } }\<close> followed by
  \<open>throw lastError || new Error(default)\<close>.
\<close>

fun provider_loop ::
  "string \<Rightarrow> ('q, 'a) provider list \<Rightarrow> 'q \<Rightarrow> error option \<Rightarrow> log_line list
    \<Rightarrow> (error + 'a) \<times> log_line list" where
  "provider_loop dflt [] q lastError out =
     (Inl (case lastError of None \<Rightarrow> Error dflt | Some e \<Rightarrow> e), out)"
| "provider_loop dflt (p # ps) q lastError out =
     (case fn p q of
        Inr result \<Rightarrow> (Inr result, out @ [Trying (name p), Succeeded (name p)])
      | Inl e \<Rightarrow>
          provider_loop dflt ps q (Some e)
            (out @ [Trying (name p), Failed (name p) (message e)]))"

definition run_providers ::
  "string \<Rightarrow> ('q, 'a) provider list \<Rightarrow> 'q \<Rightarrow> (error + 'a) \<times> log_line list" where
  "run_providers dflt providers q = provider_loop dflt providers q None []"

text \<open>The names of the providers that were invoked, in the order of their invocation.\<close>

fun tried :: "log_line list \<Rightarrow> string list" where
  "tried [] = []"
| "tried (Trying n # ls) = n # tried ls"
| "tried (l # ls) = tried ls"

text \<open>What the loop logs for a provider that fails on the request.\<close>

definition failure_lines :: "'q \<Rightarrow> ('q, 'a) provider \<Rightarrow> log_line list" where
  "failure_lines q p =
     (case fn p q of
        Inl e \<Rightarrow> [Trying (name p), Failed (name p) (message e)]
      | Inr r \<Rightarrow> [])"

record edge_env =
  callGroqAPI :: "string \<times> string \<Rightarrow> error + string"
  callTogetherAPI :: "string \<times> string \<Rightarrow> error + string"
  callHuggingFaceAPI :: "string \<times> string \<Rightarrow> error + string"
  generateWithHuggingFace :: "string \<Rightarrow> error + json"
  generateWithPollinations :: "string \<Rightarrow> error + json"

text \<open>\<open>callLLM\<close> of the deconstruct function: Groq, then Together, then HuggingFace.\<close>

definition callLLM :: "edge_env \<Rightarrow> string \<Rightarrow> string \<Rightarrow> (error + string) \<times> log_line list" where
  "callLLM env prompt systemPrompt =
     run_providers ''All LLM providers failed''
       [\<lparr>name = ''Groq'', fn = callGroqAPI env\<rparr>,
        \<lparr>name = ''Together'', fn = callTogetherAPI env\<rparr>,
        \<lparr>name = ''HuggingFace'', fn = callHuggingFaceAPI env\<rparr>]
       (prompt, systemPrompt)"

text \<open>\<open>callLLM\<close> of the simulate function: Groq, then Together.\<close>

definition callLLM_simulate ::
  "edge_env \<Rightarrow> string \<Rightarrow> string \<Rightarrow> (error + string) \<times> log_line list" where
  "callLLM_simulate env prompt systemPrompt =
     run_providers ''All LLM providers failed''
       [\<lparr>name = ''Groq'', fn = callGroqAPI env\<rparr>,
        \<lparr>name = ''Together'', fn = callTogetherAPI env\<rparr>]
       (prompt, systemPrompt)"

text \<open>\<open>callLLM\<close> of the narrative function: Groq alone.\<close>

definition callLLM_narrative ::
  "edge_env \<Rightarrow> string \<Rightarrow> string \<Rightarrow> (error + string) \<times> log_line list" where
  "callLLM_narrative env prompt systemPrompt =
     run_providers ''All LLM providers failed''
       [\<lparr>name = ''Groq'', fn = callGroqAPI env\<rparr>]
       (prompt, systemPrompt)"

text \<open>\<open>generateImage\<close> of the generate-image function: the providers are closures over the prompt.\<close>

definition generateImage :: "edge_env \<Rightarrow> string \<Rightarrow> (error + json) \<times> log_line list" where
  "generateImage env prompt =
     run_providers ''All image generation providers failed''
       [\<lparr>name = ''HuggingFace'', fn = (\<lambda>u :: unit. generateWithHuggingFace env prompt)\<rparr>,
        \<lparr>name = ''Pollinations'', fn = (\<lambda>u :: unit. generateWithPollinations env prompt)\<rparr>]
       ()"

section \<open>The deconstruct edge function\<close>

record response =
  status :: nat
  headers :: "(string \<times> string) list"
  content :: "json option"

definition corsHeaders :: "(string \<times> string) list" where
  "corsHeaders =
     [(''Access-Control-Allow-Origin'', ''*''),
      (''Access-Control-Allow-Headers'', ''authorization, x-client-info, apikey, content-type'')]"

definition json_headers :: "(string \<times> string) list" where
  "json_headers = corsHeaders @ [(''Content-Type'', ''application/json'')]"

text \<open>Object and string literals of the source, as JSON values.\<close>

definition str :: "string \<Rightarrow> json" where
  "str s = JStr (units s)"

definition obj :: "(string \<times> json) list \<Rightarrow> json" where
  "obj kvs = JObj (map (\<lambda>(k, v). (units k, v)) kvs)"

definition strs :: "string list \<Rightarrow> json" where
  "strs xs = JArr (map str xs)"

text \<open>
  \<open>response.match(/\{[\s\S]*\}/)\<close>: the match starts at the first opening brace and,
  the star being greedy over every character, ends at the last closing brace after it;
  there is no match when no closing brace follows the first opening one.
\<close>

definition jsonMatch :: "string \<Rightarrow> string option" where
  "jsonMatch response =
     (let from_open = dropWhile (\<lambda>c. c \<noteq> CHR ''{'') response;
          upto_close = rev (dropWhile (\<lambda>c. c \<noteq> CHR ''}'') (rev from_open))
      in if upto_close = [] then None else Some upto_close)"

text \<open>\<open>const jsonStr = jsonMatch ? jsonMatch[0] : response\<close>: the text handed to \<open>JSON.parse\<close>.\<close>

definition jsonStr :: "string \<Rightarrow> string" where
  "jsonStr response = (case jsonMatch response of Some m \<Rightarrow> m | None \<Rightarrow> response)"

definition deconstruct_systemPrompt :: string where
  \<open>deconstruct_systemPrompt =
     ''You are an expert historian-engineer. For any given invention you will d'' @
     ''econstruct it into its fundamental dependencies in a structured JSON for'' @
     ''mat. Always respond with valid JSON only, no additional text.\<newline>'' @
     ''\<newline>'' @
     ''Return JSON with this exact structure:\<newline>'' @
     ''{\<newline>'' @
     ''  "name": "invention_name",\<newline>'' @
     ''  "core_functions": ["function1", "function2"],\<newline>'' @
     ''  "materials": ["material1", "material2"],\<newline>'' @
     ''  "enabling_sciences": ["science1", "science2"],\<newline>'' @
     ''  "subsystems": [{"name": "subsystem_name", "dependency": ["dep1", "dep2'' @
     ''"]}],\<newline>'' @
     ''  "cultural_drivers": ["driver1", "driver2"],\<newline>'' @
     ''  "min_tech_level": ["tech1", "tech2"]\<newline>'' @
     ''}''\<close>

definition deconstruct_userPrompt :: "string \<Rightarrow> string" where
  \<open>deconstruct_userPrompt invention =
     ''Deconstruct the invention: "'' @ invention @
     ''"\<newline>'' @
     ''\<newline>'' @
     ''Analyze its core functions, required materials, enabling sciences, key s'' @
     ''ubsystems, cultural drivers that led to its creation, and minimum techno'' @
     ''logy level required. Return only valid JSON.''\<close>

definition fallback_decomposition :: "string \<Rightarrow> json" where
  "fallback_decomposition invention =
     obj [(''name'', str invention),
          (''core_functions'', strs [''primary function'', ''secondary function'']),
          (''materials'', strs [''basic materials'', ''advanced materials'']),
          (''enabling_sciences'', strs [''physics'', ''engineering'']),
          (''subsystems'',
             JArr [obj [(''name'', str ''main component''),
                        (''dependency'', strs [''materials'', ''science''])]]),
          (''cultural_drivers'', strs [''societal need'', ''technological advancement'']),
          (''min_tech_level'', strs [''industrial technology'', ''scientific knowledge''])]"

text \<open>
  The \<open>try\<close> block around the match and \<open>JSON.parse\<close>, with its \<open>catch\<close> that builds the
  fallback structure.
\<close>

definition coerce_decomposition :: "string \<Rightarrow> string \<Rightarrow> json" where
  "coerce_decomposition invention response =
     (case JSON_parse (jsonStr response) of
        Some parsed \<Rightarrow> parsed
      | None \<Rightarrow> fallback_decomposition invention)"

text \<open>
  A request is \<open>OPTIONS\<close> or carries a body; the body is the error that \<open>req.json()\<close>
  throws when it cannot be read, and a field of the body is \<open>None\<close> when the body has
  none of that name. The fields have the types of the interfaces \<open>DeconstructionRequest\<close>
  and \<open>SimulationRequest\<close>.
\<close>

record RequestBody =
  invention :: "string option"
  era :: "string option"
  decomposition :: "json option"
  depth :: "number option"
  creativity :: "number option"

datatype 'b request = OPTIONS | POST "error + 'b"

definition error_response :: "nat \<Rightarrow> (string \<times> json) list \<Rightarrow> response" where
  "error_response code kvs = \<lparr>status = code, headers = json_headers, content = Some (obj kvs)\<rparr>"

definition serve_deconstruct ::
  "edge_env \<Rightarrow> RequestBody request \<Rightarrow> response \<times> log_line list" where
  "serve_deconstruct env req =
     (case req of
        OPTIONS \<Rightarrow> (\<lparr>status = 200, headers = corsHeaders, content = None\<rparr>, [])
      | POST (Inl e) \<Rightarrow>
          (error_response 500
             [(''error'', str ''Failed to deconstruct invention''),
              (''details'', str (message e))], [])
      | POST (Inr r) \<Rightarrow>
          (case invention r of
             None \<Rightarrow> (error_response 400 [(''error'', str ''Invention name is required'')], [])
           | Some subject \<Rightarrow>
               if subject = [] \<or> length (trim subject) = 0 then
                 (error_response 400 [(''error'', str ''Invention name is required'')], [])
               else if length subject > 100 then
                 (error_response 400
                    [(''error'', str ''Invention name too long (max 100 characters)'')], [])
               else
                 (case callLLM env (deconstruct_userPrompt subject) deconstruct_systemPrompt of
                    (Inl e, out) \<Rightarrow>
                      (error_response 500
                         [(''error'', str ''Failed to deconstruct invention''),
                          (''details'', str (message e))], out)
                  | (Inr resp, out) \<Rightarrow>
                      (\<lparr>status = 200, headers = json_headers,
                        content = Some (obj [(''decomposition'', coerce_decomposition subject resp)])\<rparr>,
                       out))))"

section \<open>The simulate edge function\<close>

text \<open>
  The prompt of this function renders numbers and a JSON value into text; both
  renderings are the runtime's (\<open>String\<close> of a number, \<open>JSON.stringify\<close>) and are
  taken from a record.
\<close>

record js_runtime =
  String_of :: "number \<Rightarrow> string"
  JSON_stringify :: "json \<Rightarrow> string"
  JSON_stringify_indented :: "json \<Rightarrow> string"

definition simulate_systemPrompt :: string where
  \<open>simulate_systemPrompt =
     ''You are a speculative historian and systems engineer. You create alterna'' @
     ''te invention pathways that could plausibly produce inventions in differe'' @
     ''nt historical eras. Always respond with valid JSON only, no additional t'' @
     ''ext.\<newline>'' @
     ''\<newline>'' @
     ''Return JSON with this exact structure:\<newline>'' @
     ''{\<newline>'' @
     ''  "pathways": [\<newline>'' @
     ''    {\<newline>'' @
     ''      "id": 1,\<newline>'' @
     ''      "title": "Pathway Name",\<newline>'' @
     ''      "narrative": "80-140 word historical narrative as if it happened",\<newline>'' @
     ''      "technical_steps": ["step1", "step2", "step3"],\<newline>'' @
     ''      "prototype_description": "How the device looks and works in that e'' @
     ''ra",\<newline>'' @
     ''      "feasibility_score": 7,\<newline>'' @
     ''      "required_breakthroughs": ["breakthrough1", "breakthrough2"]\<newline>'' @
     ''    }\<newline>'' @
     ''  ]\<newline>'' @
     ''}''\<close>

definition simulate_userPrompt ::
  "js_runtime \<Rightarrow> string \<Rightarrow> string \<Rightarrow> json option \<Rightarrow> number \<Rightarrow> number \<Rightarrow> string" where
  \<open>simulate_userPrompt rt subject period decomp level deep =
     (case truthy decomp of
        Some d \<Rightarrow> ''Based on this decomposition: '' @ JSON_stringify rt d @ ''\<newline>\<newline>''
      | None \<Rightarrow> ''For the invention "'' @ subject @ ''", consider its basic requirements.\<newline>\<newline>'') @
     ''Imagine 3 alternate invention pathways that could plausibly produce "'' @
     subject @
     ''" in the "'' @
     period @
     ''" era.\<newline>'' @
     ''\<newline>'' @
     ''For each pathway:\<newline>'' @
     ''- Create a compelling title\<newline>'' @
     ''- Write a 80-140 word narrative as if it actually happened in that era\<newline>'' @
     ''- List 3-5 technical steps describing how existing technology is combine'' @
     ''d\<newline>'' @
     ''- Describe the prototype (appearance, materials, interface) for that era\<newline>'' @
     ''- Give a feasibility score 0-10 (considering available technology in '' @
     period @
     '')\<newline>'' @
     ''- List 1-3 required breakthroughs\<newline>'' @
     ''\<newline>'' @
     ''Creativity level: '' @
     String_of rt level @
     ''\<newline>'' @
     ''Depth level: '' @
     String_of rt deep @
     ''\<newline>'' @
     ''\<newline>'' @
     ''Return only valid JSON.''\<close>

definition fallback_simulations :: "string \<Rightarrow> string \<Rightarrow> json" where
  "fallback_simulations subject period =
     obj [(''pathways'',
        JArr
         [obj [(''id'', JNum 1),
               (''title'', str (''Early '' @ subject @
                               '' - Mechanical Approach'')),
               (''narrative'',
                  str (''In the '' @ period @
                       '', inventors combined existing mechanical principles to create an early'' @
                       '' version of the '' @ subject @
                       ''. Using materials and techniques available at the time, they developed'' @
                       '' a functional prototype that served similar purposes to the modern inv'' @
                       ''ention.'')),
               (''technical_steps'',
                  strs [''Combine existing mechanical components'',
                        ''Use available materials and craftsmanship'',
                        ''Apply known scientific principles'',
                        ''Iterate through manual testing'']),
               (''prototype_description'',
                  str (''A '' @ period @
                       ''-era device using wood, metal, and basic mechanisms to replicate core '' @
                       ''functions of a '' @ subject @ ''.'')),
               (''feasibility_score'', JNum 6),
               (''required_breakthroughs'',
                  strs [''Advanced materials'', ''Precision manufacturing''])],
          obj [(''id'', JNum 2),
               (''title'', str (subject @ '' - Alternative Path'')),
               (''narrative'',
                  str (''An alternate timeline where the '' @ subject @
                       '' emerged through a different technological path in the '' @
                       period @
                       ''. Inventors approached the problem from a unique angle, leading to an '' @
                       ''innovative solution using period-appropriate technology.'')),
               (''technical_steps'',
                  strs [''Alternative technical approach'',
                        ''Use of different base technologies'',
                        ''Novel combination of existing tools'',
                        ''Gradual refinement process'']),
               (''prototype_description'',
                  str (''A unique '' @ period @ '' interpretation of the '' @
                       subject @ '' using alternative materials and methods.'')),
               (''feasibility_score'', JNum 5),
               (''required_breakthroughs'',
                  strs [''New manufacturing techniques'', ''Scientific understanding''])],
          obj [(''id'', JNum 3),
               (''title'', str (''Revolutionary '' @ subject @ '' Concept'')),
               (''narrative'',
                  str (''A visionary '' @ period @
                       '' inventor reimagined the fundamental approach to creating a '' @
                       subject @
                       ''. This revolutionary concept challenged conventional thinking and prop'' @
                       ''osed a radically different method to achieve the same goals.'')),
               (''technical_steps'',
                  strs [''Revolutionary design approach'',
                        ''Novel use of available resources'',
                        ''Innovative problem-solving'',
                        ''Prototype development'']),
               (''prototype_description'',
                  str (''A groundbreaking '' @ period @
                       '' device that challenges traditional approaches to the '' @
                       subject @ '' concept.'')),
               (''feasibility_score'', JNum 4),
               (''required_breakthroughs'',
                  strs [''Paradigm shift'', ''Technical innovations'', ''Resource availability''])]])]"

definition coerce_simulations :: "string \<Rightarrow> string \<Rightarrow> string \<Rightarrow> json" where
  "coerce_simulations subject period response =
     (case JSON_parse (jsonStr response) of
        Some parsed \<Rightarrow> parsed
      | None \<Rightarrow> fallback_simulations subject period)"

text \<open>The guard \<open>!invention || !era\<close> holds of an absent and of an empty string.\<close>

definition falsy_string :: "string option \<Rightarrow> bool" where
  "falsy_string s = (case s of None \<Rightarrow> True | Some x \<Rightarrow> x = [])"

definition serve_simulate ::
  "js_runtime \<Rightarrow> edge_env \<Rightarrow> RequestBody request \<Rightarrow> response \<times> log_line list" where
  "serve_simulate rt env req =
     (case req of
        OPTIONS \<Rightarrow> (\<lparr>status = 200, headers = corsHeaders, content = None\<rparr>, [])
      | POST (Inl e) \<Rightarrow>
          (error_response 500
             [(''error'', str ''Failed to simulate invention pathways''),
              (''details'', str (message e))], [])
      | POST (Inr r) \<Rightarrow>
          if falsy_string (invention r) \<or> falsy_string (era r) then
            (error_response 400 [(''error'', str ''Invention and era are required'')], [])
          else
            (let subject = (case invention r of Some x \<Rightarrow> x | None \<Rightarrow> []);
                 period = (case era r of Some x \<Rightarrow> x | None \<Rightarrow> []);
                 deep = (case depth r of Some x \<Rightarrow> x | None \<Rightarrow> 3);
                 level = (case creativity r of Some x \<Rightarrow> x | None \<Rightarrow> 8 / 10)
             in case callLLM_simulate env
                       (simulate_userPrompt rt subject period (decomposition r) level deep)
                       simulate_systemPrompt of
                  (Inl e, out) \<Rightarrow>
                    (error_response 500
                       [(''error'', str ''Failed to simulate invention pathways''),
                        (''details'', str (message e))], out)
                | (Inr resp, out) \<Rightarrow>
                    (\<lparr>status = 200, headers = json_headers,
                      content = Some (coerce_simulations subject period resp)\<rparr>, out)))"

section \<open>The cache\<close>

text \<open>
  Modelled from the spec: the class \<open>NodeCache\<close> of the package node-cache, which
  \<open>cache.js\<close> imports and the sources do not contain. An entry is a value with the
  instant it expires at; the time to live is fixed when the cache is constructed
  (\<open>stdTTL\<close>, in seconds, zero meaning no expiry); a lookup of an entry whose
  expiry has passed is a miss and evicts the entry. Instants are milliseconds, as
  \<open>Date.now()\<close> gives them.
\<close>

record 'v cache_entry =
  entry_value :: 'v
  expiresAt :: int

record 'v NodeCache =
  stdTTL :: int
  store :: "string \<rightharpoonup> 'v cache_entry"

definition new_NodeCache :: "int \<Rightarrow> 'v NodeCache" where
  "new_NodeCache ttl = \<lparr>stdTTL = ttl, store = Map.empty\<rparr>"

definition cache_get :: "'v NodeCache \<Rightarrow> int \<Rightarrow> string \<Rightarrow> 'v option \<times> 'v NodeCache" where
  "cache_get c now key =
     (case store c key of
        None \<Rightarrow> (None, c)
      | Some e \<Rightarrow>
          if expiresAt e \<noteq> 0 \<and> expiresAt e < now
          then (None, c\<lparr>store := (store c)(key := None)\<rparr>)
          else (Some (entry_value e), c))"

definition cache_set :: "'v NodeCache \<Rightarrow> int \<Rightarrow> string \<Rightarrow> 'v \<Rightarrow> 'v NodeCache" where
  "cache_set c now key val =
     c\<lparr>store := (store c)(key \<mapsto>
         \<lparr>entry_value = val,
          expiresAt = (if stdTTL c = 0 then 0 else now + stdTTL c * 1000)\<rparr>)\<rparr>"

text \<open>
  The state of the Express server: the rate limiter's map from IP to the instants of
  the admitted requests, shared by every limiter, and the four caches of \<open>cache.js\<close>.
\<close>

record server_state =
  rateLimits :: "string \<rightharpoonup> int list"
  deconstructionCache :: "json NodeCache"
  simulationCache :: "json NodeCache"
  imageCache :: "json NodeCache"
  audioCache :: "string NodeCache"

definition initial_state :: server_state where
  "initial_state =
     \<lparr>rateLimits = Map.empty,
      deconstructionCache = new_NodeCache 3600,
      simulationCache = new_NodeCache 1800,
      imageCache = new_NodeCache 7200,
      audioCache = new_NodeCache 600\<rparr>"

text \<open>The times to live as \<open>cache.js\<close> constructs them; no operation changes them.\<close>

definition configured :: "server_state \<Rightarrow> bool" where
  "configured st =
     (stdTTL (deconstructionCache st) = 3600 \<and> stdTTL (simulationCache st) = 1800
      \<and> stdTTL (imageCache st) = 7200 \<and> stdTTL (audioCache st) = 600)"

definition deconstruct_key :: "string \<Rightarrow> string" where
  "deconstruct_key subject = ''deconstruct_'' @ trim (toLowerCase subject)"

definition getCachedDeconstruction ::
  "server_state \<Rightarrow> int \<Rightarrow> string \<Rightarrow> json option \<times> server_state" where
  "getCachedDeconstruction st now subject =
     (let (r, c) = cache_get (deconstructionCache st) now (deconstruct_key subject)
      in (r, st\<lparr>deconstructionCache := c\<rparr>))"

definition setCachedDeconstruction ::
  "server_state \<Rightarrow> int \<Rightarrow> string \<Rightarrow> json \<Rightarrow> server_state" where
  "setCachedDeconstruction st now subject data =
     st\<lparr>deconstructionCache :=
          cache_set (deconstructionCache st) now (deconstruct_key subject) data\<rparr>"

text \<open>
  The simulation key ends with the creativity, a number the template renders as text;
  the rendering is the runtime's, and the key takes the rendered text \<open>level\<close>.
\<close>

definition simulate_key :: "string \<Rightarrow> string \<Rightarrow> string \<Rightarrow> string" where
  "simulate_key subject period level =
     ''simulate_'' @ trim (toLowerCase subject) @ ''_'' @ trim (toLowerCase period)
       @ ''_'' @ level"

definition getCachedSimulation ::
  "server_state \<Rightarrow> int \<Rightarrow> string \<Rightarrow> string \<Rightarrow> string \<Rightarrow> json option \<times> server_state" where
  "getCachedSimulation st now subject period level =
     (let (r, c) = cache_get (simulationCache st) now (simulate_key subject period level)
      in (r, st\<lparr>simulationCache := c\<rparr>))"

definition setCachedSimulation ::
  "server_state \<Rightarrow> int \<Rightarrow> string \<Rightarrow> string \<Rightarrow> string \<Rightarrow> json \<Rightarrow> server_state" where
  "setCachedSimulation st now subject period level data =
     st\<lparr>simulationCache :=
          cache_set (simulationCache st) now (simulate_key subject period level) data\<rparr>"

text \<open>
  The image key: \<open>Buffer.from(prompt)\<close> is the UTF-8 encoding of the prompt,
  \<open>toString('base64')\<close> its base64 text, \<open>slice(0, 50)\<close> the first fifty characters.
\<close>

definition utf8 :: "string \<Rightarrow> nat list" where
  "utf8 s =
     concat (map (\<lambda>c. let n = of_char c :: nat
                       in if n < 128 then [n] else [192 + n div 64, 128 + n mod 64]) s)"

definition base64_alphabet :: string where
  "base64_alphabet =
     ''ABCDEFGHIJKLMNOPQRSTUVWXYZabcdefghijklmnopqrstuvwxyz0123456789+/''"

definition b64 :: "nat \<Rightarrow> char" where
  "b64 n = base64_alphabet ! (n mod 64)"

fun base64 :: "nat list \<Rightarrow> string" where
  "base64 [] = []"
| "base64 [a] = [b64 (a div 4), b64 ((a mod 4) * 16), CHR ''='', CHR ''='']"
| "base64 [a, b] =
     [b64 (a div 4), b64 ((a mod 4) * 16 + b div 16), b64 ((b mod 16) * 4), CHR ''='']"
| "base64 (a # b # c # rest) =
     [b64 (a div 4), b64 ((a mod 4) * 16 + b div 16), b64 ((b mod 16) * 4 + c div 64),
      b64 (c mod 64)] @ base64 rest"

definition image_key :: "string \<Rightarrow> string" where
  "image_key prompt = ''image_'' @ take 50 (base64 (utf8 prompt))"

definition getCachedImage :: "server_state \<Rightarrow> int \<Rightarrow> string \<Rightarrow> json option \<times> server_state" where
  "getCachedImage st now prompt =
     (let (r, c) = cache_get (imageCache st) now (image_key prompt)
      in (r, st\<lparr>imageCache := c\<rparr>))"

definition setCachedImage :: "server_state \<Rightarrow> int \<Rightarrow> string \<Rightarrow> json \<Rightarrow> server_state" where
  "setCachedImage st now prompt data =
     st\<lparr>imageCache := cache_set (imageCache st) now (image_key prompt) data\<rparr>"

definition getCachedTranscription ::
  "server_state \<Rightarrow> int \<Rightarrow> string \<Rightarrow> string option \<times> server_state" where
  "getCachedTranscription st now audioHash =
     (let (r, c) = cache_get (audioCache st) now (''audio_'' @ audioHash)
      in (r, st\<lparr>audioCache := c\<rparr>))"

definition setCachedTranscription ::
  "server_state \<Rightarrow> int \<Rightarrow> string \<Rightarrow> string \<Rightarrow> server_state" where
  "setCachedTranscription st now audioHash text =
     st\<lparr>audioCache := cache_set (audioCache st) now (''audio_'' @ audioHash) text\<rparr>"

section \<open>The rate limiter\<close>

record express_response =
  statusCode :: nat
  json_body :: json

text \<open>
  \<open>simpleRateLimit(maxRequests, windowMs)\<close> applied to a request from \<open>key\<close> at the
  instant \<open>now\<close>: \<open>Some\<close> of the 429 response it sends, or \<open>None\<close> when it calls
  \<open>next()\<close>; with the map as it leaves it.
\<close>

definition simpleRateLimit ::
  "int \<Rightarrow> int \<Rightarrow> string \<Rightarrow> int \<Rightarrow> (string \<rightharpoonup> int list)
    \<Rightarrow> express_response option \<times> (string \<rightharpoonup> int list)" where
  "simpleRateLimit maxRequests windowMs key now rl =
     (let rl1 = (if rl key = None then rl(key \<mapsto> []) else rl);
          requests = (case rl1 key of None \<Rightarrow> [] | Some r \<Rightarrow> r);
          validRequests = filter (\<lambda>time. now - time < windowMs) requests
      in if maxRequests \<le> int (length validRequests) then
           (Some \<lparr>statusCode = 429,
                  json_body = obj [(''error'', str ''Rate limit exceeded. Please try again later.''),
                                   (''retryAfter'', JNum (of_int windowMs))]\<rparr>, rl1)
         else (None, rl1(key \<mapsto> validRequests @ [now])))"

definition deconstructLimiter ::
  "string \<Rightarrow> int \<Rightarrow> (string \<rightharpoonup> int list) \<Rightarrow> express_response option \<times> (string \<rightharpoonup> int list)" where
  "deconstructLimiter = simpleRateLimit 10 300000"

definition simulateLimiter ::
  "string \<Rightarrow> int \<Rightarrow> (string \<rightharpoonup> int list) \<Rightarrow> express_response option \<times> (string \<rightharpoonup> int list)" where
  "simulateLimiter = simpleRateLimit 5 300000"

definition imageLimiter ::
  "string \<Rightarrow> int \<Rightarrow> (string \<rightharpoonup> int list) \<Rightarrow> express_response option \<times> (string \<rightharpoonup> int list)" where
  "imageLimiter = simpleRateLimit 3 300000"

text \<open>The number of instants recorded for a key that lie within the window at \<open>now\<close>.\<close>

definition in_window :: "int \<Rightarrow> int \<Rightarrow> string \<Rightarrow> (string \<rightharpoonup> int list) \<Rightarrow> nat" where
  "in_window windowMs now key rl =
     length (filter (\<lambda>time. now - time < windowMs) (case rl key of None \<Rightarrow> [] | Some r \<Rightarrow> r))"

text \<open>
  The map after ten requests to /deconstruct from one address, at the instants 0 to 9,
  starting from the empty map.
\<close>

definition ten_deconstructs :: "string \<rightharpoonup> int list" where
  "ten_deconstructs =
     foldl (\<lambda>rl now. snd (deconstructLimiter ''203.0.113.7'' now rl)) Map.empty
       [0, 1, 2, 3, 4, 5, 6, 7, 8, 9]"

section \<open>Validation and moderation of the Express routes\<close>

text \<open>
  What the OpenAI client answers is taken from an environment: a chat completion is
  the content of the first choice or the error thrown, a moderation the list of
  results or the error thrown. The effects of a request on its collaborators are
  recorded as a trace.
\<close>

record ModerationResult =
  flagged :: bool

record express_env =
  chat_completions_create :: "string \<Rightarrow> string \<Rightarrow> error + string"
  moderations_create :: "string \<Rightarrow> error + ModerationResult list"

datatype effect =
    ModerationCall string
  | CacheLookup string string
  | CacheStore string string
  | PromptBuild string
  | GPTCall string string

definition MODERATION_KEYWORDS :: "string list" where
  "MODERATION_KEYWORDS =
     [''weapon'', ''bomb'', ''explosive'', ''poison'', ''drug'', ''illegal'', ''harmful'',
      ''dangerous'']"

definition checkModerationKeywords :: "string \<Rightarrow> bool" where
  "checkModerationKeywords text =
     list_ex (\<lambda>keyword. includes_str (toLowerCase text) keyword) MODERATION_KEYWORDS"

text \<open>
  \<open>moderateContent\<close> returns the first result, or \<open>{ flagged: false }\<close> when the call
  throws. The first element of an empty list of results is \<open>undefined\<close>, here \<open>None\<close>.
\<close>

definition moderateContent :: "express_env \<Rightarrow> string \<Rightarrow> ModerationResult option" where
  "moderateContent env text =
     (case moderations_create env text of
        Inl e \<Rightarrow> Some \<lparr>flagged = False\<rparr>
      | Inr results \<Rightarrow> (case results of [] \<Rightarrow> None | r # rs \<Rightarrow> Some r))"

record sanitizedInput =
  sanitized_invention :: string
  sanitized_era :: string

definition bad_request :: "string \<Rightarrow> express_response" where
  "bad_request msg = \<lparr>statusCode = 400, json_body = obj [(''error'', str msg)]\<rparr>"

text \<open>
  The middleware answers with a response (\<open>Inl\<close>) or sets \<open>req.sanitizedInput\<close> and
  calls \<open>next()\<close> (\<open>Inr\<close>). Reading \<open>flagged\<close> of an undefined result throws inside
  the \<open>try\<close>, whose \<open>catch\<close> logs a warning and goes on.
\<close>

definition validateAndModerateInput ::
  "express_env \<Rightarrow> RequestBody \<Rightarrow> (express_response + sanitizedInput) \<times> effect list" where
  "validateAndModerateInput env b =
     (case invention b of
        None \<Rightarrow> (Inl (bad_request ''Invention name is required''), [])
      | Some subject \<Rightarrow>
          if subject = [] \<or> length (trim subject) = 0 then
            (Inl (bad_request ''Invention name is required''), [])
          else if length subject > 100 then
            (Inl (bad_request ''Invention name too long (max 100 characters)''), [])
          else if checkModerationKeywords subject then
            (Inl (bad_request ''Invalid invention topic''), [])
          else
            (let proceed =
                   Inr \<lparr>sanitized_invention = trim subject,
                        sanitized_era =
                          (case era b of
                             None \<Rightarrow> ''1800s''
                           | Some e \<Rightarrow> if e = [] then ''1800s'' else trim e)\<rparr>
             in case moderateContent env subject of
                  None \<Rightarrow> (proceed, [ModerationCall subject])
                | Some moderation \<Rightarrow>
                    if flagged moderation then
                      (Inl (bad_request ''Content flagged by moderation system''),
                       [ModerationCall subject])
                    else (proceed, [ModerationCall subject])))"

section \<open>The route POST /deconstruct\<close>

definition DECONSTRUCTION_SYSTEM :: string where
  \<open>DECONSTRUCTION_SYSTEM =
     ''You are an expert historian-engineer who specializes in analyzing invent'' @
     ''ions and their technological dependencies. You will deconstruct any give'' @
     ''n invention into its fundamental components in a structured JSON format.\<newline>'' @
     ''\<newline>'' @
     ''Your analysis should be thorough, historically accurate, and consider bo'' @
     ''th technical and cultural factors that enabled the invention.''\<close>

definition getDeconstructionPrompt :: "string \<Rightarrow> string" where
  \<open>getDeconstructionPrompt subject =
     ''\<newline>'' @
     ''Deconstruct the invention: "'' @ subject @
     ''"\<newline>'' @
     ''\<newline>'' @
     ''Return a JSON object with the following structure:\<newline>'' @
     ''{\<newline>'' @
     ''  "name": "'' @ subject @
     ''",\<newline>'' @
     ''  "core_functions": ["list of primary functions this invention serves"],\<newline>'' @
     ''  "materials": ["list of key materials required"],\<newline>'' @
     ''  "enabling_sciences": ["list of scientific principles and discoveries r'' @
     ''equired"],\<newline>'' @
     ''  "subsystems": [\<newline>'' @
     ''    {\<newline>'' @
     ''      "name": "subsystem name",\<newline>'' @
     ''      "dependencies": ["list of technologies or materials this subsystem'' @
     '' requires"],\<newline>'' @
     ''      "complexity": "low|medium|high"\<newline>'' @
     ''    }\<newline>'' @
     ''  ],\<newline>'' @
     ''  "cultural_drivers": ["social, economic, or cultural needs that drove i'' @
     ''ts development"],\<newline>'' @
     ''  "min_tech_level": [\<newline>'' @
     ''    {\<newline>'' @
     ''      "technology": "required prerequisite technology",\<newline>'' @
     ''      "notes": "brief explanation of why this is necessary"\<newline>'' @
     ''    }\<newline>'' @
     ''  ],\<newline>'' @
     ''  "manufacturing_requirements": ["list of manufacturing processes or cap'' @
     ''abilities needed"],\<newline>'' @
     ''  "key_breakthroughs": ["critical innovations that made this invention p'' @
     ''ossible"]\<newline>'' @
     ''}\<newline>'' @
     ''\<newline>'' @
     ''Focus on being comprehensive and historically accurate.''\<close>

text \<open>\<open>callGPT\<close> wraps the error of the client in its own.\<close>

definition callGPT :: "express_env \<Rightarrow> string \<Rightarrow> string \<Rightarrow> error + string" where
  "callGPT env systemPrompt userPrompt =
     (case chat_completions_create env systemPrompt userPrompt of
        Inl e \<Rightarrow> Inl (Error (''GPT API failed: '' @ message e))
      | Inr text \<Rightarrow> Inr text)"

definition server_error :: "string \<Rightarrow> express_response" where
  "server_error msg = \<lparr>statusCode = 500, json_body = obj [(''error'', str msg)]\<rparr>"

text \<open>
  The handler of the route, entered with \<open>req.sanitizedInput\<close>. One reading of the
  clock, \<open>now\<close>, serves the whole request.
\<close>

definition deconstruct_handler ::
  "express_env \<Rightarrow> server_state \<Rightarrow> int \<Rightarrow> sanitizedInput
    \<Rightarrow> express_response \<times> server_state \<times> effect list" where
  "deconstruct_handler env st now input =
     (let subject = sanitized_invention input;
          (cached, st1) = getCachedDeconstruction st now subject;
          lookup = [CacheLookup ''deconstruction'' (deconstruct_key subject)]
      in case truthy cached of
           Some c \<Rightarrow>
             (\<lparr>statusCode = 200,
               json_body = obj [(''decomposition'', c), (''cached'', JBool True)]\<rparr>,
              st1, lookup)
         | None \<Rightarrow>
           (let prompt = getDeconstructionPrompt subject;
                called = lookup @ [PromptBuild ''getDeconstructionPrompt'',
                                   GPTCall DECONSTRUCTION_SYSTEM prompt]
            in case callGPT env DECONSTRUCTION_SYSTEM prompt of
                 Inl e \<Rightarrow> (server_error ''Failed to deconstruct invention'', st1, called)
               | Inr resp \<Rightarrow>
                   (case JSON_parse resp of
                      None \<Rightarrow> (server_error ''Failed to parse AI response'', st1, called)
                    | Some parsed \<Rightarrow>
                        (\<lparr>statusCode = 200,
                          json_body = obj [(''decomposition'', parsed),
                                           (''cached'', JBool False)]\<rparr>,
                         setCachedDeconstruction st1 now subject parsed,
                         called @ [CacheStore ''deconstruction'' (deconstruct_key subject)]))))"

record Req =
  ip :: string
  body :: RequestBody

text \<open>
  \<open>router.post('/deconstruct', validateAndModerateInput, deconstructLimiter, handler)\<close>:
  each stage runs when the one before it calls \<open>next()\<close>.
\<close>

definition post_deconstruct ::
  "express_env \<Rightarrow> server_state \<Rightarrow> int \<Rightarrow> Req \<Rightarrow> express_response \<times> server_state \<times> effect list" where
  "post_deconstruct env st now req =
     (case validateAndModerateInput env (body req) of
        (Inl res, tr) \<Rightarrow> (res, st, tr)
      | (Inr input, tr) \<Rightarrow>
          (case deconstructLimiter (ip req) now (rateLimits st) of
             (Some res, rl) \<Rightarrow> (res, st\<lparr>rateLimits := rl\<rparr>, tr)
           | (None, rl) \<Rightarrow>
               (case deconstruct_handler env (st\<lparr>rateLimits := rl\<rparr>) now input of
                  (res, st', tr') \<Rightarrow> (res, st', tr @ tr'))))"


section \<open>The route POST /simulate\<close>

definition SIMULATION_SYSTEM :: string where
  \<open>SIMULATION_SYSTEM =
     ''You are a speculative historian and systems engineer with expertise in t'' @
     ''echnological development across different eras. You excel at imagining p'' @
     ''lausible alternate technological pathways and understanding how inventio'' @
     ''ns could have emerged differently given different historical circumstanc'' @
     ''es.\<newline>'' @
     ''\<newline>'' @
     ''Your simulations should be creative yet grounded in historical possibili'' @
     ''ty, considering the materials, knowledge, and cultural context of the sp'' @
     ''ecified era.''\<close>

definition getSimulationPrompt :: "js_runtime \<Rightarrow> string \<Rightarrow> string \<Rightarrow> json \<Rightarrow> number \<Rightarrow> string" where
  \<open>getSimulationPrompt rt subject period decomp level =
     ''\<newline>'' @
     ''Using the decomposition data below, imagine 3-4 alternate invention path'' @
     ''ways that could plausibly have produced "'' @
     subject @
     ''" during the "'' @
     period @
     ''" era.\<newline>'' @
     ''\<newline>'' @
     ''Decomposition data:\<newline>'' @
     JSON_stringify_indented rt decomp @
     ''\<newline>'' @
     ''\<newline>'' @
     ''For each pathway, create a JSON object with:\<newline>'' @
     ''{\<newline>'' @
     ''  "pathways": [\<newline>'' @
     ''    {\<newline>'' @
     ''      "id": "unique_id",\<newline>'' @
     ''      "title": "Creative name for this alternate invention",\<newline>'' @
     ''      "narrative": "80-140 word story written as if this actually happen'' @
     ''ed in that era, using period-appropriate language and context",\<newline>'' @
     ''      "technical_steps": ["ordered list of how existing technology/knowl'' @
     ''edge would be combined"],\<newline>'' @
     ''      "prototype_description": "detailed description of how the device w'' @
     ''ould look, feel, and function using era-appropriate materials and method'' @
     ''s",\<newline>'' @
     ''      "feasibility_score": "0-10 rating (0=impossible, 10=very plausible'' @
     '' for the era)",\<newline>'' @
     ''      "required_breakthroughs": ["1-3 key innovations needed to make thi'' @
     ''s work"],\<newline>'' @
     ''      "cultural_impact": "how this would have changed society in that er'' @
     ''a",\<newline>'' @
     ''      "visual_description": "detailed description for image generation, '' @
     ''including era-appropriate aesthetics and materials"\<newline>'' @
     ''    }\<newline>'' @
     ''  ]\<newline>'' @
     ''}\<newline>'' @
     ''\<newline>'' @
     ''Consider:\<newline>'' @
     ''- Available materials and manufacturing techniques of the era\<newline>'' @
     ''- Scientific knowledge of the time\<newline>'' @
     ''- Cultural and social context\<newline>'' @
     ''- Economic factors and trade networks\<newline>'' @
     ''- Existing technological foundations\<newline>'' @
     ''\<newline>'' @
     ''Creativity level: '' @
     String_of rt level @
     '' (0=conservative, 1=highly speculative)''\<close>

text \<open>
  \<open>Math.max(0, Math.min(1, creativity))\<close>, with the default 0.7 of the destructuring.
\<close>

definition validatedCreativity :: "RequestBody \<Rightarrow> number" where
  "validatedCreativity b = max 0 (min 1 (case creativity b of None \<Rightarrow> 7 / 10 | Some c \<Rightarrow> c))"

text \<open>
  The handler of the route. The temperature and token limit passed to \<open>callGPT\<close> are not part of the
  model: a completion is taken as a function of the two prompts. The completion for
  the decomposition is awaited outside the inner \<open>try\<close>, so that its failure is caught
  by the outer one.
\<close>

definition simulate_handler ::
  "js_runtime \<Rightarrow> express_env \<Rightarrow> server_state \<Rightarrow> int \<Rightarrow> sanitizedInput \<Rightarrow> RequestBody
    \<Rightarrow> express_response \<times> server_state \<times> effect list" where
  "simulate_handler rt env st now input b =
     (let subject = sanitized_invention input;
          period = sanitized_era input;
          level = String_of rt (validatedCreativity b);
          (cached, st1) = getCachedSimulation st now subject period level;
          lookup = [CacheLookup ''simulation'' (simulate_key subject period level)]
      in case truthy cached of
           Some c \<Rightarrow>
             (\<lparr>statusCode = 200,
               json_body = obj [(''simulations'', c), (''cached'', JBool True)]\<rparr>,
              st1, lookup)
         | None \<Rightarrow>
             (let generate = (\<lambda>deconstructionData st2 tr.
                    (let simulationPrompt =
                           getSimulationPrompt rt subject period deconstructionData
                             (validatedCreativity b);
                         called = tr @ [PromptBuild ''getSimulationPrompt'',
                                        GPTCall SIMULATION_SYSTEM simulationPrompt]
                     in case callGPT env SIMULATION_SYSTEM simulationPrompt of
                          Inl e \<Rightarrow> (server_error ''Failed to generate simulations'', st2, called)
                        | Inr resp \<Rightarrow>
                            (case JSON_parse resp of
                               None \<Rightarrow>
                                 (server_error ''Failed to parse simulation results'', st2, called)
                             | Some parsed \<Rightarrow>
                                 (\<lparr>statusCode = 200,
                                   json_body = obj [(''simulations'', parsed),
                                                    (''cached'', JBool False)]\<rparr>,
                                  setCachedSimulation st2 now subject period level parsed,
                                  called @ [CacheStore ''simulation''
                                              (simulate_key subject period level)]))))
              in case truthy (decomposition b) of
                   Some given \<Rightarrow> generate given st1 lookup
                 | None \<Rightarrow>
                     (let (cachedDecomposition, st2) = getCachedDeconstruction st1 now subject;
                          looked = lookup @ [CacheLookup ''deconstruction''
                                               (deconstruct_key subject)]
                      in case truthy cachedDecomposition of
                           Some found \<Rightarrow> generate found st2 looked
                         | None \<Rightarrow>
                             (let decompPrompt = getDeconstructionPrompt subject;
                                  asked = looked @ [PromptBuild ''getDeconstructionPrompt'',
                                                    GPTCall DECONSTRUCTION_SYSTEM decompPrompt]
                              in case callGPT env DECONSTRUCTION_SYSTEM decompPrompt of
                                   Inl e \<Rightarrow>
                                     (server_error ''Failed to generate simulations'', st2, asked)
                                 | Inr decompResponse \<Rightarrow>
                                     (case JSON_parse decompResponse of
                                        None \<Rightarrow>
                                          (server_error ''Failed to analyze invention'', st2,
                                           asked)
                                      | Some parsed \<Rightarrow>
                                          generate parsed
                                            (setCachedDeconstruction st2 now subject parsed)
                                            (asked @ [CacheStore ''deconstruction''
                                                        (deconstruct_key subject)]))))))"

definition post_simulate ::
  "js_runtime \<Rightarrow> express_env \<Rightarrow> server_state \<Rightarrow> int \<Rightarrow> Req
    \<Rightarrow> express_response \<times> server_state \<times> effect list" where
  "post_simulate rt env st now req =
     (case validateAndModerateInput env (body req) of
        (Inl res, tr) \<Rightarrow> (res, st, tr)
      | (Inr input, tr) \<Rightarrow>
          (case simulateLimiter (ip req) now (rateLimits st) of
             (Some res, rl) \<Rightarrow> (res, st\<lparr>rateLimits := rl\<rparr>, tr)
           | (None, rl) \<Rightarrow>
               (case simulate_handler rt env (st\<lparr>rateLimits := rl\<rparr>) now input (body req) of
                  (res, st', tr') \<Rightarrow> (res, st', tr @ tr'))))"

section \<open>The schemas of the prompts, and the balanced substring of the specification\<close>

text \<open>
  The structure that the system prompts of the edge functions give as the exact structure
  of an answer: a decomposition, and a list of pathways.
\<close>

definition field :: "string \<Rightarrow> json \<Rightarrow> json option" where
  "field k j = (case j of JObj kvs \<Rightarrow> map_of kvs (units k) | _ \<Rightarrow> None)"

definition is_string :: "json \<Rightarrow> bool" where
  "is_string j = (case j of JStr u \<Rightarrow> True | _ \<Rightarrow> False)"

definition is_number :: "json \<Rightarrow> bool" where
  "is_number j = (case j of JNum x \<Rightarrow> True | _ \<Rightarrow> False)"

definition is_array_of :: "(json \<Rightarrow> bool) \<Rightarrow> json \<Rightarrow> bool" where
  "is_array_of P j = (case j of JArr xs \<Rightarrow> list_all P xs | _ \<Rightarrow> False)"

definition has :: "(json \<Rightarrow> bool) \<Rightarrow> string \<Rightarrow> json \<Rightarrow> bool" where
  "has P k j = (case field k j of Some x \<Rightarrow> P x | None \<Rightarrow> False)"

definition is_subsystem :: "json \<Rightarrow> bool" where
  "is_subsystem j = (has is_string ''name'' j \<and> has (is_array_of is_string) ''dependency'' j)"

definition is_decomposition :: "json \<Rightarrow> bool" where
  "is_decomposition j =
     (has is_string ''name'' j
      \<and> has (is_array_of is_string) ''core_functions'' j
      \<and> has (is_array_of is_string) ''materials'' j
      \<and> has (is_array_of is_string) ''enabling_sciences'' j
      \<and> has (is_array_of is_subsystem) ''subsystems'' j
      \<and> has (is_array_of is_string) ''cultural_drivers'' j
      \<and> has (is_array_of is_string) ''min_tech_level'' j)"

definition is_score :: "json \<Rightarrow> bool" where
  "is_score j = (case j of JNum x \<Rightarrow> 0 \<le> x \<and> x \<le> 10 | _ \<Rightarrow> False)"

definition is_pathway :: "json \<Rightarrow> bool" where
  "is_pathway j =
     (has is_number ''id'' j
      \<and> has is_string ''title'' j
      \<and> has is_string ''narrative'' j
      \<and> has (is_array_of is_string) ''technical_steps'' j
      \<and> has is_string ''prototype_description'' j
      \<and> has is_score ''feasibility_score'' j
      \<and> has (is_array_of is_string) ''required_breakthroughs'' j)"

definition is_simulations :: "json \<Rightarrow> bool" where
  "is_simulations j = has (is_array_of is_pathway) ''pathways'' j"



section \<open>The bound of the parser\<close>

text \<open>Every parser consumes at least one character of what it accepts.\<close>

lemma length_skip_ws: "length (skip_ws s) \<le> length s"
  by (simp add: skip_ws_def length_dropWhile_le)

lemma parse_string_shorter:
  "parse_string t acc = Some (u, r) \<Longrightarrow> length r < length t"
proof (induction t acc arbitrary: u r rule: parse_string.induct)
  case (1 acc)
  then show ?case by simp
next
  case (2 c t acc)
  show ?case
  proof (cases "c = CHR 0x22")
    case True
    with 2 show ?thesis by simp
  next
    case notq: False
    show ?thesis
    proof (cases "c = CHR 0x5C")
      case True
      note bs = this
      show ?thesis
      proof (cases t)
        case Nil
        with 2 notq bs show ?thesis by simp
      next
        case (Cons e t')
        show ?thesis
        proof (cases "e = CHR ''u''")
          case True
          with "2.prems" notq bs Cons obtain w where w: "hex4 t' = Some w"
            and p: "parse_string (drop 4 t') (acc @ [w]) = Some (u, r)"
            by (auto split: option.splits)
          from "2.IH"(1) [OF notq bs Cons True w p] show ?thesis
            using Cons by simp
        next
          case False
          with "2.prems" notq bs Cons obtain w where w: "escape_unit e = Some w"
            and p: "parse_string t' (acc @ [w]) = Some (u, r)"
            by (auto split: option.splits)
          from "2.IH"(2) [OF notq bs Cons False w p] show ?thesis
            using Cons by simp
        qed
      qed
    next
      case False
      with "2.prems" notq have lt: "\<not> (of_char c :: nat) < 32"
        and p: "parse_string t (acc @ [of_char c]) = Some (u, r)"
        by (auto split: if_splits)
      from "2.IH"(3) [OF notq False lt p] show ?thesis by simp
    qed
  qed
qed

lemma length_dropWhile_less:
  "takeWhile P xs \<noteq> [] \<Longrightarrow> length (dropWhile P xs) < length xs"
  by (cases xs) (auto simp: less_Suc_eq_le length_dropWhile_le split: if_splits)

lemma parse_exponent_le:
  "parse_exponent s = Some (e, r) \<Longrightarrow> length r \<le> length s"
proof (cases s)
  case Nil
  then show "parse_exponent s = Some (e, r) \<Longrightarrow> length r \<le> length s"
    by (simp add: parse_exponent_def)
next
  case (Cons c t)
  assume a: "parse_exponent s = Some (e, r)"
  show "length r \<le> length s"
  proof (cases "c = CHR ''e'' \<or> c = CHR ''E''")
    case False
    with a Cons show ?thesis by (auto simp: parse_exponent_def)
  next
    case True
    define t1 where "t1 = snd (case t of
                      [] \<Rightarrow> (False, t)
                    | d # t' \<Rightarrow>
                        if d = CHR ''-'' then (True, t')
                        else if d = CHR ''+'' then (False, t')
                        else (False, t))"
    have l: "length t1 \<le> length t"
      by (auto simp: t1_def split: list.splits)
    from a Cons True have "r = dropWhile is_digit t1"
      by (auto simp: parse_exponent_def Let_def split_def t1_def split: if_splits)
    then have "length r \<le> length t1" by (simp add: length_dropWhile_le)
    with l Cons show ?thesis by simp
  qed
qed

lemma parse_fraction_le:
  "parse_fraction s = Some (fp, r) \<Longrightarrow> length r \<le> length s"
  by (cases s)
     (auto simp: parse_fraction_def Let_def split: if_splits
           intro: le_SucI length_dropWhile_le)

lemma parse_int_part_less:
  "parse_int_part s = Some (ds, r) \<Longrightarrow> length r < length s"
  by (cases s)
     (auto simp: parse_int_part_def less_Suc_eq_le split: if_splits
           intro: length_dropWhile_le)

lemma parse_number_shorter:
  assumes "parse_number s = Some (v, r)"
  shows "length r < length s"
proof -
  define s1 where "s1 = snd (case s of
               [] \<Rightarrow> (False, s)
             | c # t \<Rightarrow> if c = CHR ''-'' then (True, t) else (False, s))"
  have l1: "length s1 \<le> length s"
    by (auto simp: s1_def split: list.splits)
  from assms obtain ds s2 fp s3 ex where
    i: "parse_int_part s1 = Some (ds, s2)" and f: "parse_fraction s2 = Some (fp, s3)"
    and e: "parse_exponent s3 = Some (ex, r)"
    by (auto simp: parse_number_def Let_def split_def s1_def split: option.splits)
  from parse_int_part_less [OF i] parse_fraction_le [OF f] parse_exponent_le [OF e] l1
  show ?thesis by simp
qed

lemma skip_ws_Cons: "skip_ws t = d # r \<Longrightarrow> length r < length t"
  using length_skip_ws [of t] by simp

lemma parse_shorter_aux:
  "(\<forall>s v r. parse_value n s = Parsed v r \<longrightarrow> length r < length s)
   \<and> (\<forall>s acc v r. parse_elements n s acc = Parsed v r \<longrightarrow> length r < length s)
   \<and> (\<forall>s acc v r. parse_members n s acc = Parsed v r \<longrightarrow> length r < length s)"
proof (induction n)
  case 0
  show ?case by simp
next
  case (Suc n)
  then have pv: "parse_value n s = Parsed v r \<Longrightarrow> length r < length s"
    and pe: "parse_elements n s acc = Parsed v r \<Longrightarrow> length r < length s"
    and pm: "parse_members n s kvs = Parsed v r \<Longrightarrow> length r < length s"
    for s acc kvs v r
    by blast+
  have 1: "length r < length s" if a: "parse_value (Suc n) s = Parsed v r" for s v r
  proof (cases s)
    case Nil
    with a show ?thesis by simp
  next
    case (Cons c t)
    consider (obj) "c = CHR ''{''" | (arr) "c \<noteq> CHR ''{''" "c = CHR ''[''"
      | (str) "c \<noteq> CHR ''{''" "c \<noteq> CHR ''[''" "c = CHR 0x22"
      | (other) "c \<noteq> CHR ''{''" "c \<noteq> CHR ''[''" "c \<noteq> CHR 0x22"
      by blast
    then show ?thesis
    proof cases
      case obj
      with a Cons show ?thesis
        by (auto split: list.splits if_splits dest!: pm skip_ws_Cons)
    next
      case arr
      with a Cons show ?thesis
        by (auto split: list.splits if_splits dest!: pe skip_ws_Cons)
    next
      case str
      with a Cons show ?thesis
        by (auto split: option.splits dest!: parse_string_shorter)
    next
      case other
      with a Cons show ?thesis
        by (auto split: option.splits if_splits dest!: parse_number_shorter)
    qed
  qed
  have 2: "length r < length s" if a: "parse_elements (Suc n) s acc = Parsed v r" for s acc v r
  proof -
    from a obtain w r0 d r1 where
      w: "parse_value n s = Parsed w r0" and d: "skip_ws r0 = d # r1"
      and fin: "(d = CHR '','' \<and> parse_elements n (skip_ws r1) (acc @ [w]) = Parsed v r)
                \<or> (d = CHR '']'' \<and> r = r1)"
      by (auto split: parse_result.splits list.splits if_splits)
    have "length r1 < length s"
      using pv [OF w] skip_ws_Cons [OF d] by simp
    moreover have "length r \<le> length r1"
      using fin pe [of "skip_ws r1" "acc @ [w]" v r] length_skip_ws [of r1]
      by auto
    ultimately show ?thesis by simp
  qed
  have 3: "length r < length s" if a: "parse_members (Suc n) s acc = Parsed v r" for s acc v r
  proof (cases s)
    case Nil
    with a show ?thesis by simp
  next
    case (Cons q t)
    from a Cons obtain k r0 col r1 w r2 d r3 where
      k: "parse_string t [] = Some (k, r0)" and c: "skip_ws r0 = col # r1"
      and w: "parse_value n (skip_ws r1) = Parsed w r2" and d: "skip_ws r2 = d # r3"
      and fin: "(d = CHR '','' \<and> parse_members n (skip_ws r3) (AList.update k w acc) = Parsed v r)
                \<or> (d = CHR ''}'' \<and> r = r3)"
      by (auto split: option.splits list.splits if_splits parse_result.splits)
    have "length r3 < length t"
      using parse_string_shorter [OF k] skip_ws_Cons [OF c] pv [OF w] skip_ws_Cons [OF d]
        length_skip_ws [of r1]
      by simp
    moreover have "length r \<le> length r3"
      using fin pm [of "skip_ws r3" "AList.update k w acc" v r] length_skip_ws [of r3]
      by auto
    ultimately show ?thesis using Cons by simp
  qed
  from 1 2 3 show ?case by blast
qed

text \<open>The fuel is never exhausted when it exceeds twice the length of the text.\<close>

lemma parse_fuel_aux:
  "(\<forall>s. 2 * length s < n \<longrightarrow> parse_value n s \<noteq> OutOfFuel)
   \<and> (\<forall>s acc. 2 * length s + 1 < n \<longrightarrow> parse_elements n s acc \<noteq> OutOfFuel)
   \<and> (\<forall>s acc. 2 * length s + 1 < n \<longrightarrow> parse_members n s acc \<noteq> OutOfFuel)"
proof (induction n)
  case 0
  show ?case by simp
next
  case (Suc n)
  then have pv: "2 * length s < n \<Longrightarrow> parse_value n s \<noteq> OutOfFuel"
    and pe: "2 * length s + 1 < n \<Longrightarrow> parse_elements n s acc \<noteq> OutOfFuel"
    and pm: "2 * length s + 1 < n \<Longrightarrow> parse_members n s kvs \<noteq> OutOfFuel"
    for s acc kvs
    by blast+
  have 1: "parse_value (Suc n) s \<noteq> OutOfFuel" if a: "2 * length s < Suc n" for s
  proof (cases s)
    case Nil
    then show ?thesis by simp
  next
    case (Cons c t)
    have "parse_members n (d # r) [] \<noteq> OutOfFuel" if "skip_ws t = d # r" for d r
      using skip_ws_Cons [OF that] a Cons by (intro pm) simp
    moreover have "parse_elements n (d # r) [] \<noteq> OutOfFuel" if "skip_ws t = d # r" for d r
      using skip_ws_Cons [OF that] a Cons by (intro pe) simp
    ultimately show ?thesis
      using Cons by (auto split: list.splits option.splits)
  qed
  have 2: "parse_elements (Suc n) s acc \<noteq> OutOfFuel" if a: "2 * length s + 1 < Suc n"
    for s acc
  proof -
    from a have v: "parse_value n s \<noteq> OutOfFuel" by (intro pv) simp
    have "parse_elements n (skip_ws r') (acc @ [w]) \<noteq> OutOfFuel"
      if w: "parse_value n s = Parsed w r" and d: "skip_ws r = d # r'" for w r d r'
    proof -
      have "length (skip_ws r') < length s"
        using parse_shorter_aux [of n] w skip_ws_Cons [OF d] length_skip_ws [of r']
        by (meson le_less_trans less_trans)
      with a show ?thesis by (intro pe) simp
    qed
    with v show ?thesis
      by (auto split: parse_result.splits list.splits)
  qed
  have 3: "parse_members (Suc n) s acc \<noteq> OutOfFuel" if a: "2 * length s + 1 < Suc n"
    for s acc
  proof (cases s)
    case Nil
    then show ?thesis by simp
  next
    case (Cons q t)
    have v: "parse_value n (skip_ws r1) \<noteq> OutOfFuel"
      if k: "parse_string t [] = Some (k, r0)" and c: "skip_ws r0 = col # r1" for k r0 col r1
    proof -
      have "length (skip_ws r1) < length s"
        using parse_string_shorter [OF k] skip_ws_Cons [OF c] length_skip_ws [of r1] Cons
        by simp
      with a show ?thesis by (intro pv) simp
    qed
    have m: "parse_members n (skip_ws r3) kvs \<noteq> OutOfFuel"
      if k: "parse_string t [] = Some (k, r0)" and c: "skip_ws r0 = col # r1"
        and w: "parse_value n (skip_ws r1) = Parsed w r2" and d: "skip_ws r2 = d # r3"
      for k r0 col r1 w r2 d r3 kvs
    proof -
      have "length r2 < length (skip_ws r1)"
        using parse_shorter_aux [of n] w by blast
      then have "length (skip_ws r3) < length t"
        using parse_string_shorter [OF k] skip_ws_Cons [OF c] length_skip_ws [of r1]
          skip_ws_Cons [OF d] length_skip_ws [of r3]
        by simp
      with a Cons show ?thesis by (intro pm) simp
    qed
    show ?thesis
      using Cons v m
      by (auto split: option.splits list.splits parse_result.splits)
  qed
  from 1 2 3 show ?case by blast
qed

lemma parse_value_fuel:
  "parse_value (Suc (2 * length text)) (skip_ws text) \<noteq> OutOfFuel"
proof -
  have "2 * length (skip_ws text) < Suc (2 * length text)"
    using length_skip_ws [of "text"] by simp
  with parse_fuel_aux [of "Suc (2 * length text)"] show ?thesis by blast
qed

text \<open>More fuel does not change a result that was reached.\<close>

lemma parse_more_fuel_aux:
  "(\<forall>s. parse_value n s \<noteq> OutOfFuel \<longrightarrow> parse_value (Suc n) s = parse_value n s)
   \<and> (\<forall>s acc. parse_elements n s acc \<noteq> OutOfFuel
          \<longrightarrow> parse_elements (Suc n) s acc = parse_elements n s acc)
   \<and> (\<forall>s acc. parse_members n s acc \<noteq> OutOfFuel
          \<longrightarrow> parse_members (Suc n) s acc = parse_members n s acc)"
proof (induction n)
  case 0
  show ?case by simp
next
  case (Suc n)
  then have pv: "parse_value n s \<noteq> OutOfFuel \<Longrightarrow> parse_value (Suc n) s = parse_value n s"
    and pe: "parse_elements n s acc \<noteq> OutOfFuel
             \<Longrightarrow> parse_elements (Suc n) s acc = parse_elements n s acc"
    and pm: "parse_members n s kvs \<noteq> OutOfFuel
             \<Longrightarrow> parse_members (Suc n) s kvs = parse_members n s kvs"
    for s acc kvs
    by blast+
  have 1: "parse_value (Suc (Suc n)) s = parse_value (Suc n) s"
    if a: "parse_value (Suc n) s \<noteq> OutOfFuel" for s
    using a
    unfolding parse_value.simps(2) [of "Suc n"] parse_value.simps(2) [of n s]
    by (auto split: list.splits simp: pe pm
             simp del: parse_value.simps parse_elements.simps parse_members.simps)
  have 2: "parse_elements (Suc (Suc n)) s acc = parse_elements (Suc n) s acc"
    if a: "parse_elements (Suc n) s acc \<noteq> OutOfFuel" for s acc
    using a
    unfolding parse_elements.simps(2) [of "Suc n"] parse_elements.simps(2) [of n s acc]
    by (cases "parse_value n s")
       (auto split: list.splits simp: pv pe
             simp del: parse_value.simps parse_elements.simps parse_members.simps)
  have 3: "parse_members (Suc (Suc n)) s acc = parse_members (Suc n) s acc"
    if a: "parse_members (Suc n) s acc \<noteq> OutOfFuel" for s acc
  proof (cases s)
    case Nil
    then show ?thesis by simp
  next
    case (Cons q t)
    show ?thesis
    proof (cases "q \<noteq> CHR 0x22")
      case True
      with Cons show ?thesis by simp
    next
      case q: False
      show ?thesis
      proof (cases "parse_string t []")
        case None
        with Cons q show ?thesis by simp
      next
        case (Some kr)
        obtain k r where kr: "kr = (k, r)" by (cases kr)
        show ?thesis
        proof (cases "skip_ws r")
          case Nil
          with Cons q Some kr show ?thesis by simp
        next
          case c: (Cons col r1)
          show ?thesis
          proof (cases "col \<noteq> CHR '':''")
            case True
            with Cons q Some kr c show ?thesis by simp
          next
            case col: False
            from a Cons q Some kr c col
            have v: "parse_value n (skip_ws r1) \<noteq> OutOfFuel"
              unfolding parse_members.simps(2) [of n s acc]
              by (auto simp del: parse_value.simps parse_elements.simps parse_members.simps)
            from a Cons q Some kr c col v
            show ?thesis
              unfolding parse_members.simps(2) [of "Suc n"] parse_members.simps(2) [of n s acc]
              by (cases "parse_value n (skip_ws r1)")
                 (auto split: list.splits simp: pv pm
                   simp del: parse_value.simps parse_elements.simps parse_members.simps)
          qed
        qed
      qed
    qed
  qed
  from 1 2 3 show ?case by blast
qed

text \<open>
  So the answer of \<open>JSON_parse\<close> is that of the grammar: the bound it starts with is
  never exhausted, and any larger bound gives the same result.
\<close>

lemma parse_value_any_fuel:
  "parse_value (Suc (2 * length s) + k) (skip_ws s) = parse_value (Suc (2 * length s)) (skip_ws s)"
proof (induction k)
  case 0
  show ?case by simp
next
  case (Suc k)
  have "parse_value (Suc (2 * length s) + k) (skip_ws s) \<noteq> OutOfFuel"
    using Suc parse_value_fuel [of s] by simp
  with parse_more_fuel_aux [of "Suc (2 * length s) + k"]
  have "parse_value (Suc (Suc (2 * length s) + k)) (skip_ws s)
        = parse_value (Suc (2 * length s) + k) (skip_ws s)"
    by blast
  with Suc show ?case by simp
qed

section \<open>Strings and the parser at the inputs of the examples\<close>

lemma dropWhile_all_iff: "(\<forall>x\<in>set (dropWhile P xs). P x) \<longleftrightarrow> dropWhile P xs = []"
proof
  assume a: "\<forall>x\<in>set (dropWhile P xs). P x"
  show "dropWhile P xs = []"
  proof (rule ccontr)
    assume n: "dropWhile P xs \<noteq> []"
    then have "\<not> P (hd (dropWhile P xs))" by (rule hd_dropWhile)
    moreover from n have "hd (dropWhile P xs) \<in> set (dropWhile P xs)" by simp
    ultimately show False using a by blast
  qed
qed (auto dest: set_dropWhileD)

text \<open>A string trims to the empty string exactly when all its characters are white space.\<close>

lemma trim_empty_iff: "trim s = [] \<longleftrightarrow> (\<forall>c\<in>set s. is_js_space c)"
  by (simp add: trim_def dropWhile_eq_Nil_conv dropWhile_all_iff)

lemma trim_nonempty: "trim s \<noteq> [] \<Longrightarrow> s \<noteq> []"
  by (auto simp: trim_def)

lemma trim_Smartphone: "trim ''Smartphone'' = ''Smartphone''"
  by (simp add: trim_def is_js_space_def)

lemma keywords_Smartphone: "\<not> checkModerationKeywords ''Smartphone''"
  by code_simp

lemma deconstruct_key_Smartphone: "deconstruct_key ''Smartphone'' = ''deconstruct_smartphone''"
  by code_simp

lemma JSON_parse_text: "JSON_parse ''not json at all'' = None"
  by code_simp

lemma JSON_parse_empty_object: "JSON_parse ''{}'' = Some (JObj [])"
  by code_simp

section \<open>Properties of the fallback orchestrator\<close>

lemma tried_append: "tried (xs @ ys) = tried xs @ tried ys"
  by (induction xs rule: tried.induct) simp_all

lemma tried_failure_lines: "isl (fn p q) \<Longrightarrow> tried (failure_lines q p) = [name p]"
  by (cases "fn p q") (simp_all add: failure_lines_def)

lemma tried_failures:
  "\<forall>x\<in>set ps. isl (fn x q) \<Longrightarrow> tried (concat (map (failure_lines q) ps)) = map name ps"
  by (induction ps) (simp_all add: tried_append tried_failure_lines)

text \<open>
  Running past a block of failing providers: the loop arrives at the rest of the list
  with the error of the last of them as \<open>lastError\<close>, having logged each once.
\<close>

lemma provider_loop_failures:
  assumes "\<forall>x\<in>set ps. isl (fn x q)"
  shows "provider_loop d (ps @ rest) q le out =
         provider_loop d rest q (if ps = [] then le else Some (projl (fn (last ps) q)))
           (out @ concat (map (failure_lines q) ps))"
  using assms
proof (induction ps arbitrary: le out)
  case Nil
  then show ?case by simp
next
  case (Cons p ps)
  then obtain e where e: "fn p q = Inl e" by (cases "fn p q") auto
  with Cons show ?case by (simp add: failure_lines_def)
qed

text \<open>
  Claim C1. For every provider list and request: when the providers before the k-th all
  fail on the request and the k-th succeeds, the orchestrator returns the k-th
  provider's result; the log shows one invocation of each of the first k providers, in
  the configured order; and the providers after the k-th play no part (the run equals
  the run of the list cut after the k-th, whose log names no later provider).
\<close>

theorem fallback_order:
  assumes "\<forall>x\<in>set ps. isl (fn x q)" and "fn p q = Inr r"
  shows "run_providers d (ps @ p # qs) q =
           (Inr r, concat (map (failure_lines q) ps) @ [Trying (name p), Succeeded (name p)])
         \<and> tried (snd (run_providers d (ps @ p # qs) q)) = map name ps @ [name p]
         \<and> run_providers d (ps @ p # qs) q = run_providers d (ps @ [p]) q"
proof -
  have a: "run_providers d (ps @ p # rest) q =
           (Inr r, concat (map (failure_lines q) ps) @ [Trying (name p), Succeeded (name p)])"
    for rest
    unfolding run_providers_def
    by (simp add: provider_loop_failures [OF assms(1)] assms(2))
  have b: "tried (concat (map (failure_lines q) ps) @ [Trying (name p), Succeeded (name p)])
           = map name ps @ [name p]"
    by (simp add: tried_append tried_failures [OF assms(1)])
  from a [of qs] a [of "[]"] b show ?thesis by simp
qed

text \<open>
  The claim at the deconstruct function's own list: Groq and Together are not configured,
  HuggingFace answers; a fourth provider placed after it is never reached.
\<close>

theorem fallback_order_witness:
  "isl (fn \<lparr>name = ''Groq'', fn = (\<lambda>q :: unit. Inl (Error ''GROQ_API_KEY not configured'') :: error + string)\<rparr> ())
   \<and> isl (fn \<lparr>name = ''Together'', fn = (\<lambda>q :: unit. Inl (Error ''Together API error: 503'') :: error + string)\<rparr> ())
   \<and> run_providers ''All LLM providers failed''
        ([\<lparr>name = ''Groq'', fn = (\<lambda>q :: unit. Inl (Error ''GROQ_API_KEY not configured''))\<rparr>,
          \<lparr>name = ''Together'', fn = (\<lambda>q. Inl (Error ''Together API error: 503''))\<rparr>]
         @ \<lparr>name = ''HuggingFace'', fn = (\<lambda>q. Inr ''{}'')\<rparr>
         # [\<lparr>name = ''Last'', fn = (\<lambda>q. Inr ''unused'')\<rparr>]) ()
      = (Inr ''{}'',
         [Trying ''Groq'', Failed ''Groq'' ''GROQ_API_KEY not configured'',
          Trying ''Together'', Failed ''Together'' ''Together API error: 503'',
          Trying ''HuggingFace'', Succeeded ''HuggingFace''])"
proof -
  have h: "\<forall>x\<in>set [\<lparr>name = ''Groq'', fn = (\<lambda>q :: unit. Inl (Error ''GROQ_API_KEY not configured''))\<rparr>,
              \<lparr>name = ''Together'', fn = (\<lambda>q. Inl (Error ''Together API error: 503''))\<rparr>].
      isl (fn x ())"
    by simp
  show ?thesis
    using fallback_order [OF h, of "\<lparr>name = ''HuggingFace'', fn = (\<lambda>q. Inr ''{}'')\<rparr>" "''{}''"
        "''All LLM providers failed''" "[\<lparr>name = ''Last'', fn = (\<lambda>q. Inr ''unused'')\<rparr>]"]
    by (simp add: failure_lines_def)
qed

text \<open>
  Claim C2. When every provider of a non-empty list fails on the request, the
  orchestrator fails, and the error it fails with is the error of the last provider of
  the list, not of the first: the source rethrows \<open>lastError\<close>, and a failure of
  \<open>callLLM\<close> is what "all providers failed" is in the code. The deconstruct function
  surfaces it to the caller as a 500 response whose \<open>details\<close> is the message of that
  last error.
\<close>

theorem all_providers_failed:
  "(ps \<noteq> [] \<and> (\<forall>x\<in>set ps. isl (fn x q))
      \<longrightarrow> run_providers d ps q
           = (Inl (projl (fn (last ps) q)), concat (map (failure_lines q) ps)))
   \<and> (invention b = Some s \<and> trim s \<noteq> [] \<and> length s \<le> 100
       \<and> callGroqAPI env (deconstruct_userPrompt s, deconstruct_systemPrompt) = Inl e1
       \<and> callTogetherAPI env (deconstruct_userPrompt s, deconstruct_systemPrompt) = Inl e2
       \<and> callHuggingFaceAPI env (deconstruct_userPrompt s, deconstruct_systemPrompt) = Inl e3
      \<longrightarrow> serve_deconstruct env (POST (Inr b))
           = (error_response 500
                [(''error'', str ''Failed to deconstruct invention''),
                 (''details'', str (message e3))],
              [Trying ''Groq'', Failed ''Groq'' (message e1),
               Trying ''Together'', Failed ''Together'' (message e2),
               Trying ''HuggingFace'', Failed ''HuggingFace'' (message e3)]))"
proof (intro conjI impI)
  assume a: "ps \<noteq> [] \<and> (\<forall>x\<in>set ps. isl (fn x q))"
  then show "run_providers d ps q
           = (Inl (projl (fn (last ps) q)), concat (map (failure_lines q) ps))"
    using provider_loop_failures [of ps q d "[]" None "[]"]
    by (simp add: run_providers_def)
next
  assume a: "invention b = Some s \<and> trim s \<noteq> [] \<and> length s \<le> 100
       \<and> callGroqAPI env (deconstruct_userPrompt s, deconstruct_systemPrompt) = Inl e1
       \<and> callTogetherAPI env (deconstruct_userPrompt s, deconstruct_systemPrompt) = Inl e2
       \<and> callHuggingFaceAPI env (deconstruct_userPrompt s, deconstruct_systemPrompt) = Inl e3"
  then have "s \<noteq> []" using trim_nonempty by blast
  with a show "serve_deconstruct env (POST (Inr b))
           = (error_response 500
                [(''error'', str ''Failed to deconstruct invention''),
                 (''details'', str (message e3))],
              [Trying ''Groq'', Failed ''Groq'' (message e1),
               Trying ''Together'', Failed ''Together'' (message e2),
               Trying ''HuggingFace'', Failed ''HuggingFace'' (message e3)])"
    by (simp add: serve_deconstruct_def callLLM_def run_providers_def)
qed

text \<open>
  At two failing providers the failure is the second one's; at the deconstruct function
  with its three providers failing, the response carries the message of HuggingFace.
\<close>

theorem all_providers_failed_witness:
  "run_providers ''All LLM providers failed''
     [\<lparr>name = ''Groq'', fn = (\<lambda>q :: unit. Inl (Error ''GROQ_API_KEY not configured'') :: error + string)\<rparr>,
      \<lparr>name = ''Together'', fn = (\<lambda>q. Inl (Error ''Together API error: 503''))\<rparr>] ()
    = (Inl (Error ''Together API error: 503''),
       [Trying ''Groq'', Failed ''Groq'' ''GROQ_API_KEY not configured'',
        Trying ''Together'', Failed ''Together'' ''Together API error: 503''])
   \<and> serve_deconstruct
        \<lparr>callGroqAPI = (\<lambda>p. Inl (Error ''GROQ_API_KEY not configured'')),
         callTogetherAPI = (\<lambda>p. Inl (Error ''TOGETHER_API_KEY not configured'')),
         callHuggingFaceAPI = (\<lambda>p. Inl (Error ''Hugging Face API error: 429'')),
         generateWithHuggingFace = (\<lambda>p. Inl (Error ''HUGGING_FACE_API_KEY not configured'')),
         generateWithPollinations = (\<lambda>p. Inl (Error ''Pollinations API error: 500''))\<rparr>
        (POST (Inr \<lparr>invention = Some ''Smartphone'', era = None, decomposition = None,
                     depth = None, creativity = None\<rparr>))
    = (error_response 500
         [(''error'', str ''Failed to deconstruct invention''),
          (''details'', str ''Hugging Face API error: 429'')],
       [Trying ''Groq'', Failed ''Groq'' ''GROQ_API_KEY not configured'',
        Trying ''Together'', Failed ''Together'' ''TOGETHER_API_KEY not configured'',
        Trying ''HuggingFace'', Failed ''HuggingFace'' ''Hugging Face API error: 429''])"
proof -
  have t: "trim ''Smartphone'' \<noteq> []" by (simp add: trim_def is_js_space_def)
  show ?thesis
    using t all_providers_failed [of
      "[\<lparr>name = ''Groq'', fn = (\<lambda>q :: unit. Inl (Error ''GROQ_API_KEY not configured'') :: error + string)\<rparr>,
        \<lparr>name = ''Together'', fn = (\<lambda>q. Inl (Error ''Together API error: 503''))\<rparr>]"
      "()"
      "''All LLM providers failed''"
      "\<lparr>invention = Some ''Smartphone'', era = None, decomposition = None,
                     depth = None, creativity = None\<rparr>"
      "''Smartphone''"
      "\<lparr>callGroqAPI = (\<lambda>p. Inl (Error ''GROQ_API_KEY not configured'')),
         callTogetherAPI = (\<lambda>p. Inl (Error ''TOGETHER_API_KEY not configured'')),
         callHuggingFaceAPI = (\<lambda>p. Inl (Error ''Hugging Face API error: 429'')),
         generateWithHuggingFace = (\<lambda>p. Inl (Error ''HUGGING_FACE_API_KEY not configured'')),
         generateWithPollinations = (\<lambda>p. Inl (Error ''Pollinations API error: 500''))\<rparr>"
      "Error ''GROQ_API_KEY not configured''" "Error ''TOGETHER_API_KEY not configured''"
      "Error ''Hugging Face API error: 429''"]
    by (simp add: failure_lines_def)
qed

section \<open>Response coercion\<close>

lemma fallback_decomposition_valid: "is_decomposition (fallback_decomposition s)"
  by (simp add: is_decomposition_def fallback_decomposition_def has_def field_def obj_def
      str_def strs_def units_def is_string_def is_array_of_def is_subsystem_def)

lemma fallback_simulations_valid: "is_simulations (fallback_simulations s p)"
  by (simp add: is_simulations_def is_pathway_def fallback_simulations_def has_def field_def
      obj_def str_def strs_def units_def is_string_def is_array_of_def is_number_def
      is_score_def)

text \<open>
  Claim C3 fails as stated. The Express route /deconstruct does not coerce: when the
  model's text is not JSON, its \<open>catch\<close> answers 500, "Failed to parse AI response". And
  where the edge functions do coerce, a text that parses is returned as parsed, whatever
  its shape: the text \<open>{}\<close> gives the empty object, which is no decomposition.
\<close>

theorem coercion_counterexample:
  "JSON_parse ''not json at all'' = None
   \<and> fst (deconstruct_handler
        \<lparr>chat_completions_create = (\<lambda>s u. Inr ''not json at all''),
         moderations_create = (\<lambda>t. Inr [\<lparr>flagged = False\<rparr>])\<rparr>
        initial_state 0
        \<lparr>sanitized_invention = ''Smartphone'', sanitized_era = ''1800s''\<rparr>)
      = \<lparr>statusCode = 500, json_body = obj [(''error'', str ''Failed to parse AI response'')]\<rparr>
   \<and> coerce_decomposition ''Smartphone'' ''{}'' = JObj []
   \<and> \<not> is_decomposition (JObj [])"
proof -
  have 1: "fst (deconstruct_handler
        \<lparr>chat_completions_create = (\<lambda>s u. Inr ''not json at all''),
         moderations_create = (\<lambda>t. Inr [\<lparr>flagged = False\<rparr>])\<rparr>
        initial_state 0
        \<lparr>sanitized_invention = ''Smartphone'', sanitized_era = ''1800s''\<rparr>)
      = \<lparr>statusCode = 500, json_body = obj [(''error'', str ''Failed to parse AI response'')]\<rparr>"
    by (simp add: deconstruct_handler_def getCachedDeconstruction_def cache_get_def
        initial_state_def new_NodeCache_def truthy_def callGPT_def JSON_parse_text Let_def
        server_error_def)
  have 2: "coerce_decomposition ''Smartphone'' ''{}'' = JObj []"
    by (simp add: coerce_decomposition_def jsonStr_def jsonMatch_def JSON_parse_empty_object)
  have 3: "\<not> is_decomposition (JObj [])"
    by (simp add: is_decomposition_def has_def field_def)
  from JSON_parse_text 1 2 3 show ?thesis by simp
qed

text \<open>
  Claim C3 as amended. In the deconstruct and simulate edge functions a parse failure
  never reaches the caller: whatever text the model returned, the handler answers 200;
  the value is the parsed one when \<open>JSON.parse\<close> accepts the extracted text, and the
  placeholder object otherwise, which has the shape the prompt asks for. In the Express
  route /deconstruct a text that does not parse is answered with 500.
\<close>

theorem coercion_fallback:
  "is_decomposition (fallback_decomposition subject)
   \<and> is_simulations (fallback_simulations subject period)
   \<and> coerce_decomposition subject resp
       = (case JSON_parse (jsonStr resp) of
            Some v \<Rightarrow> v | None \<Rightarrow> fallback_decomposition subject)
   \<and> coerce_simulations subject period resp
       = (case JSON_parse (jsonStr resp) of
            Some v \<Rightarrow> v | None \<Rightarrow> fallback_simulations subject period)
   \<and> (invention b = Some subject \<and> trim subject \<noteq> [] \<and> length subject \<le> 100
       \<and> callLLM env (deconstruct_userPrompt subject) deconstruct_systemPrompt = (Inr resp, out)
        \<longrightarrow> serve_deconstruct env (POST (Inr b))
            = (\<lparr>status = 200, headers = json_headers,
                content = Some (obj [(''decomposition'', coerce_decomposition subject resp)])\<rparr>,
               out))
   \<and> (invention b = Some subject \<and> subject \<noteq> [] \<and> era b = Some period \<and> period \<noteq> []
       \<and> callLLM_simulate env
            (simulate_userPrompt rt subject period (decomposition b)
               (case creativity b of Some x \<Rightarrow> x | None \<Rightarrow> 8 / 10)
               (case depth b of Some x \<Rightarrow> x | None \<Rightarrow> 3))
            simulate_systemPrompt = (Inr resp, out)
        \<longrightarrow> serve_simulate rt env (POST (Inr b))
            = (\<lparr>status = 200, headers = json_headers,
                content = Some (coerce_simulations subject period resp)\<rparr>, out))
   \<and> (truthy (fst (getCachedDeconstruction st now (sanitized_invention input))) = None
       \<and> callGPT xenv DECONSTRUCTION_SYSTEM
            (getDeconstructionPrompt (sanitized_invention input)) = Inr resp
       \<and> JSON_parse resp = None
        \<longrightarrow> fst (deconstruct_handler xenv st now input)
            = \<lparr>statusCode = 500,
               json_body = obj [(''error'', str ''Failed to parse AI response'')]\<rparr>)"
proof (intro conjI impI)
  show "is_decomposition (fallback_decomposition subject)"
    by (rule fallback_decomposition_valid)
  show "is_simulations (fallback_simulations subject period)"
    by (rule fallback_simulations_valid)
  show "coerce_decomposition subject resp
       = (case JSON_parse (jsonStr resp) of
            Some v \<Rightarrow> v | None \<Rightarrow> fallback_decomposition subject)"
    by (simp add: coerce_decomposition_def)
  show "coerce_simulations subject period resp
       = (case JSON_parse (jsonStr resp) of
            Some v \<Rightarrow> v | None \<Rightarrow> fallback_simulations subject period)"
    by (simp add: coerce_simulations_def)
next
  assume a: "invention b = Some subject \<and> trim subject \<noteq> [] \<and> length subject \<le> 100
       \<and> callLLM env (deconstruct_userPrompt subject) deconstruct_systemPrompt = (Inr resp, out)"
  then have "subject \<noteq> []" using trim_nonempty by blast
  with a show "serve_deconstruct env (POST (Inr b))
            = (\<lparr>status = 200, headers = json_headers,
                content = Some (obj [(''decomposition'', coerce_decomposition subject resp)])\<rparr>,
               out)"
    by (simp add: serve_deconstruct_def)
next
  assume "invention b = Some subject \<and> subject \<noteq> [] \<and> era b = Some period \<and> period \<noteq> []
       \<and> callLLM_simulate env
            (simulate_userPrompt rt subject period (decomposition b)
               (case creativity b of Some x \<Rightarrow> x | None \<Rightarrow> 8 / 10)
               (case depth b of Some x \<Rightarrow> x | None \<Rightarrow> 3))
            simulate_systemPrompt = (Inr resp, out)"
  then show "serve_simulate rt env (POST (Inr b))
            = (\<lparr>status = 200, headers = json_headers,
                content = Some (coerce_simulations subject period resp)\<rparr>, out)"
    by (simp add: serve_simulate_def falsy_string_def Let_def)
next
  assume "truthy (fst (getCachedDeconstruction st now (sanitized_invention input))) = None
       \<and> callGPT xenv DECONSTRUCTION_SYSTEM
            (getDeconstructionPrompt (sanitized_invention input)) = Inr resp
       \<and> JSON_parse resp = None"
  then show "fst (deconstruct_handler xenv st now input)
            = \<lparr>statusCode = 500,
               json_body = obj [(''error'', str ''Failed to parse AI response'')]\<rparr>"
    by (simp add: deconstruct_handler_def Let_def split_def server_error_def)
qed

text \<open>
  The three handlers at the text "not json at all": Groq answers it to the two edge
  functions, which respond 200 with their placeholders; the OpenAI client answers it to
  the Express route, which responds 500.
\<close>

theorem coercion_fallback_witness:
  "serve_deconstruct
      \<lparr>callGroqAPI = (\<lambda>p. Inr ''not json at all''),
       callTogetherAPI = (\<lambda>p. Inl (Error ''TOGETHER_API_KEY not configured'')),
       callHuggingFaceAPI = (\<lambda>p. Inl (Error ''HUGGING_FACE_API_KEY not configured'')),
       generateWithHuggingFace = (\<lambda>p. Inl (Error ''HUGGING_FACE_API_KEY not configured'')),
       generateWithPollinations = (\<lambda>p. Inl (Error ''Pollinations API error: 500''))\<rparr>
      (POST (Inr \<lparr>invention = Some ''Smartphone'', era = Some ''1800s'', decomposition = None,
                   depth = None, creativity = None\<rparr>))
    = (\<lparr>status = 200, headers = json_headers,
        content = Some (obj [(''decomposition'', fallback_decomposition ''Smartphone'')])\<rparr>,
       [Trying ''Groq'', Succeeded ''Groq''])
   \<and> serve_simulate
      \<lparr>String_of = (\<lambda>x. ''0.8''), JSON_stringify = (\<lambda>j. ''{}''),
       JSON_stringify_indented = (\<lambda>j. ''{}'')\<rparr>
      \<lparr>callGroqAPI = (\<lambda>p. Inr ''not json at all''),
       callTogetherAPI = (\<lambda>p. Inl (Error ''TOGETHER_API_KEY not configured'')),
       callHuggingFaceAPI = (\<lambda>p. Inl (Error ''HUGGING_FACE_API_KEY not configured'')),
       generateWithHuggingFace = (\<lambda>p. Inl (Error ''HUGGING_FACE_API_KEY not configured'')),
       generateWithPollinations = (\<lambda>p. Inl (Error ''Pollinations API error: 500''))\<rparr>
      (POST (Inr \<lparr>invention = Some ''Smartphone'', era = Some ''1800s'', decomposition = None,
                   depth = None, creativity = None\<rparr>))
    = (\<lparr>status = 200, headers = json_headers,
        content = Some (fallback_simulations ''Smartphone'' ''1800s'')\<rparr>,
       [Trying ''Groq'', Succeeded ''Groq''])
   \<and> fst (deconstruct_handler
        \<lparr>chat_completions_create = (\<lambda>s u. Inr ''not json at all''),
         moderations_create = (\<lambda>t. Inr [\<lparr>flagged = False\<rparr>])\<rparr>
        initial_state 0
        \<lparr>sanitized_invention = ''Smartphone'', sanitized_era = ''1800s''\<rparr>)
      = \<lparr>statusCode = 500, json_body = obj [(''error'', str ''Failed to parse AI response'')]\<rparr>"
proof -
  have j: "jsonStr ''not json at all'' = ''not json at all''"
    by (simp add: jsonStr_def jsonMatch_def)
  have g: "truthy (fst (getCachedDeconstruction initial_state 0 ''Smartphone'')) = None"
    by (simp add: getCachedDeconstruction_def cache_get_def initial_state_def
        new_NodeCache_def truthy_def)
  show ?thesis
    using coercion_fallback [of "''Smartphone''" "''1800s''" "''not json at all''"
      "\<lparr>invention = Some ''Smartphone'', era = Some ''1800s'', decomposition = None,
                   depth = None, creativity = None\<rparr>"
      "\<lparr>callGroqAPI = (\<lambda>p. Inr ''not json at all''),
       callTogetherAPI = (\<lambda>p. Inl (Error ''TOGETHER_API_KEY not configured'')),
       callHuggingFaceAPI = (\<lambda>p. Inl (Error ''HUGGING_FACE_API_KEY not configured'')),
       generateWithHuggingFace = (\<lambda>p. Inl (Error ''HUGGING_FACE_API_KEY not configured'')),
       generateWithPollinations = (\<lambda>p. Inl (Error ''Pollinations API error: 500''))\<rparr>"
      "[Trying ''Groq'', Succeeded ''Groq'']"
      "\<lparr>String_of = (\<lambda>x. ''0.8''), JSON_stringify = (\<lambda>j. ''{}''),
       JSON_stringify_indented = (\<lambda>j. ''{}'')\<rparr>"
      initial_state 0
      "\<lparr>sanitized_invention = ''Smartphone'', sanitized_era = ''1800s''\<rparr>"
      "\<lparr>chat_completions_create = (\<lambda>s u. Inr ''not json at all''),
         moderations_create = (\<lambda>t. Inr [\<lparr>flagged = False\<rparr>])\<rparr>"]
    by (simp add: j g JSON_parse_text trim_Smartphone callLLM_def callLLM_simulate_def
        run_providers_def callGPT_def)
qed


text \<open>There is no match exactly when no closing brace follows the first opening one.\<close>

lemma jsonMatch_none:
  "jsonMatch raw = None \<longleftrightarrow> CHR ''}'' \<notin> set (dropWhile (\<lambda>c. c \<noteq> CHR ''{'') raw)"
  by (auto simp: jsonMatch_def Let_def dropWhile_eq_Nil_conv)




section \<open>Validation\<close>

lemma validate_rejects:
  assumes "invention b = Some s" and "(\<forall>c\<in>set s. is_js_space c) \<or> 100 < length s"
  shows "validateAndModerateInput env b =
          (Inl (bad_request (if trim s = [] then ''Invention name is required''
                             else ''Invention name too long (max 100 characters)'')), [])"
  using assms by (auto simp: validateAndModerateInput_def trim_empty_iff)

text \<open>
  Claim C5. For every request whose invention string is empty or made of white space
  only, or longer than 100 characters, the handlers the claim cites answer 400: the
  middleware \<open>validateAndModerateInput\<close>, and with it the Express routes /deconstruct
  and /simulate, and the deconstruct edge function; the moderation service is not
  called, no cache is looked up, no provider is invoked and the state of the server is
  unchanged. The simulate edge function is the sibling of the deconstruct edge function
  and has none of its trim and length checks: its guard is \<open>!invention || !era\<close>, and
  it answers 400 exactly when the invention or the era is absent or empty, so that an
  invention of white space or of more than 100 characters reaches the providers.
\<close>

theorem invalid_subject_rejected:
  fixes s :: string
  defines "msg \<equiv> if trim s = [] then ''Invention name is required''
                 else ''Invention name too long (max 100 characters)''"
  assumes "invention b = Some s" and "(\<forall>c\<in>set s. is_js_space c) \<or> 100 < length s"
  shows "validateAndModerateInput env b = (Inl (bad_request msg), [])
          \<and> post_deconstruct env st now \<lparr>ip = a, body = b\<rparr> = (bad_request msg, st, [])
          \<and> post_simulate rt env st now \<lparr>ip = a, body = b\<rparr> = (bad_request msg, st, [])
          \<and> statusCode (bad_request msg) = 400
          \<and> serve_deconstruct eenv (POST (Inr b)) = (error_response 400 [(''error'', str msg)], [])
          \<and> status (error_response 400 [(''error'', str msg)]) = 400
          \<and> (status (fst (serve_simulate rt eenv (POST (Inr b)))) = 400
               \<longleftrightarrow> s = [] \<or> falsy_string (era b))"
proof -
  have v: "validateAndModerateInput env b = (Inl (bad_request msg), [])"
    unfolding msg_def by (rule validate_rejects [OF assms(2,3)])
  have e: "serve_deconstruct eenv (POST (Inr b)) = (error_response 400 [(''error'', str msg)], [])"
    using assms(2,3) by (auto simp: msg_def serve_deconstruct_def trim_empty_iff)
  have s: "status (fst (serve_simulate rt eenv (POST (Inr b)))) = 400
            \<longleftrightarrow> s = [] \<or> falsy_string (era b)"
    using assms(2)
    by (auto simp: serve_simulate_def error_response_def Let_def falsy_string_def
             split: prod.splits sum.splits)
  show ?thesis
    using v e s
    by (simp add: post_deconstruct_def post_simulate_def bad_request_def error_response_def)
qed

text \<open>A tab and two spaces as the invention; and an invention of 101 letters.\<close>

theorem invalid_subject_rejected_witness:
  "validateAndModerateInput
      \<lparr>chat_completions_create = (\<lambda>s u. Inr ''{}''),
       moderations_create = (\<lambda>t. Inr [\<lparr>flagged = False\<rparr>])\<rparr>
      \<lparr>invention = Some [CHR 0x09, CHR '' '', CHR '' ''], era = None, decomposition = None,
       depth = None, creativity = None\<rparr>
     = (Inl (bad_request ''Invention name is required''), [])
   \<and> post_deconstruct
      \<lparr>chat_completions_create = (\<lambda>s u. Inr ''{}''),
       moderations_create = (\<lambda>t. Inr [\<lparr>flagged = False\<rparr>])\<rparr>
      initial_state 0
      \<lparr>ip = ''203.0.113.7'',
       body = \<lparr>invention = Some (replicate 101 CHR ''a''), era = None, decomposition = None,
               depth = None, creativity = None\<rparr>\<rparr>
     = (bad_request ''Invention name too long (max 100 characters)'', initial_state, [])"
proof -
  have w: "(\<forall>c\<in>set [CHR 0x09, CHR '' '', CHR '' '']. is_js_space c)
            \<or> 100 < length [CHR 0x09, CHR '' '', CHR '' '']"
    by (simp add: is_js_space_def)
  have l: "(\<forall>c\<in>set (replicate 101 CHR ''a''). is_js_space c)
            \<or> 100 < length (replicate 101 CHR ''a'')"
    by simp
  have t1: "trim [CHR 0x09, CHR '' '', CHR '' ''] = []"
    by (simp add: trim_def is_js_space_def)
  have t2: "trim (replicate 101 CHR ''a'') \<noteq> []"
    by (simp add: trim_empty_iff is_js_space_def)
  show ?thesis
    using invalid_subject_rejected [OF _ w,
        of "\<lparr>invention = Some [CHR 0x09, CHR '' '', CHR '' ''], era = None, decomposition = None,
             depth = None, creativity = None\<rparr>"
           "\<lparr>chat_completions_create = (\<lambda>s u. Inr ''{}''),
             moderations_create = (\<lambda>t. Inr [\<lparr>flagged = False\<rparr>])\<rparr>"]
      invalid_subject_rejected [OF _ l,
        of "\<lparr>invention = Some (replicate 101 CHR ''a''), era = None, decomposition = None,
               depth = None, creativity = None\<rparr>"
           "\<lparr>chat_completions_create = (\<lambda>s u. Inr ''{}''),
             moderations_create = (\<lambda>t. Inr [\<lparr>flagged = False\<rparr>])\<rparr>"
           initial_state 0 "''203.0.113.7''"]
    by (simp add: t1 t2)
qed

text \<open>
  The simulate edge function at the two kinds of invention that its siblings refuse.
  An invention of three spaces, and one of 101 letters, pass the guard
  \<open>!invention || !era\<close>: Groq is invoked and the response is 200. The deconstruct edge
  function answers 400 to the same two bodies without invoking a provider.
\<close>

lemma simulate_edge_validation_gap:
  "trim ''   '' = []
   \<and> serve_simulate
      \<lparr>String_of = (\<lambda>x. ''0.8''), JSON_stringify = (\<lambda>j. ''{}''),
       JSON_stringify_indented = (\<lambda>j. ''{}'')\<rparr>
      \<lparr>callGroqAPI = (\<lambda>p. Inr ''{}''),
       callTogetherAPI = (\<lambda>p. Inl (Error ''TOGETHER_API_KEY not configured'')),
       callHuggingFaceAPI = (\<lambda>p. Inl (Error ''HUGGING_FACE_API_KEY not configured'')),
       generateWithHuggingFace = (\<lambda>p. Inl (Error ''HUGGING_FACE_API_KEY not configured'')),
       generateWithPollinations = (\<lambda>p. Inl (Error ''Pollinations API error: 500''))\<rparr>
      (POST (Inr \<lparr>invention = Some ''   '', era = Some ''1800s'', decomposition = None,
                   depth = None, creativity = None\<rparr>))
    = (\<lparr>status = 200, headers = json_headers, content = Some (JObj [])\<rparr>,
       [Trying ''Groq'', Succeeded ''Groq''])
   \<and> serve_simulate
      \<lparr>String_of = (\<lambda>x. ''0.8''), JSON_stringify = (\<lambda>j. ''{}''),
       JSON_stringify_indented = (\<lambda>j. ''{}'')\<rparr>
      \<lparr>callGroqAPI = (\<lambda>p. Inr ''{}''),
       callTogetherAPI = (\<lambda>p. Inl (Error ''TOGETHER_API_KEY not configured'')),
       callHuggingFaceAPI = (\<lambda>p. Inl (Error ''HUGGING_FACE_API_KEY not configured'')),
       generateWithHuggingFace = (\<lambda>p. Inl (Error ''HUGGING_FACE_API_KEY not configured'')),
       generateWithPollinations = (\<lambda>p. Inl (Error ''Pollinations API error: 500''))\<rparr>
      (POST (Inr \<lparr>invention = Some (replicate 101 CHR ''a''), era = Some ''1800s'',
                   decomposition = None, depth = None, creativity = None\<rparr>))
    = (\<lparr>status = 200, headers = json_headers, content = Some (JObj [])\<rparr>,
       [Trying ''Groq'', Succeeded ''Groq''])
   \<and> serve_deconstruct
      \<lparr>callGroqAPI = (\<lambda>p. Inr ''{}''),
       callTogetherAPI = (\<lambda>p. Inl (Error ''TOGETHER_API_KEY not configured'')),
       callHuggingFaceAPI = (\<lambda>p. Inl (Error ''HUGGING_FACE_API_KEY not configured'')),
       generateWithHuggingFace = (\<lambda>p. Inl (Error ''HUGGING_FACE_API_KEY not configured'')),
       generateWithPollinations = (\<lambda>p. Inl (Error ''Pollinations API error: 500''))\<rparr>
      (POST (Inr \<lparr>invention = Some ''   '', era = Some ''1800s'', decomposition = None,
                   depth = None, creativity = None\<rparr>))
    = (error_response 400 [(''error'', str ''Invention name is required'')], [])
   \<and> serve_deconstruct
      \<lparr>callGroqAPI = (\<lambda>p. Inr ''{}''),
       callTogetherAPI = (\<lambda>p. Inl (Error ''TOGETHER_API_KEY not configured'')),
       callHuggingFaceAPI = (\<lambda>p. Inl (Error ''HUGGING_FACE_API_KEY not configured'')),
       generateWithHuggingFace = (\<lambda>p. Inl (Error ''HUGGING_FACE_API_KEY not configured'')),
       generateWithPollinations = (\<lambda>p. Inl (Error ''Pollinations API error: 500''))\<rparr>
      (POST (Inr \<lparr>invention = Some (replicate 101 CHR ''a''), era = Some ''1800s'',
                   decomposition = None, depth = None, creativity = None\<rparr>))
    = (error_response 400
         [(''error'', str ''Invention name too long (max 100 characters)'')], [])"
proof -
  have t: "trim ''   '' = []"
    by (simp add: trim_def is_js_space_def)
  have n: "trim (replicate 101 CHR ''a'') \<noteq> []"
    by (simp add: trim_empty_iff is_js_space_def)
  show ?thesis
    using n
    by (simp add: t serve_simulate_def serve_deconstruct_def falsy_string_def
        callLLM_simulate_def run_providers_def coerce_simulations_def jsonStr_def
        jsonMatch_def JSON_parse_empty_object)
qed

section \<open>The cache\<close>

lemma cache_get_set:
  assumes "0 \<le> stdTTL c" and "0 \<le> t0"
  shows "fst (cache_get (cache_set c t0 k v) t1 k) =
         (if stdTTL c = 0 \<or> t1 \<le> t0 + stdTTL c * 1000 then Some v else None)"
proof -
  have "stdTTL c \<noteq> 0 \<Longrightarrow> t0 + stdTTL c * 1000 \<noteq> 0"
    using assms by arith
  then show ?thesis
    by (auto simp: cache_get_def cache_set_def)
qed

text \<open>The times to live are those of the construction, in every state the server reaches.\<close>

lemma configured_initial: "configured initial_state"
  by (simp add: configured_def initial_state_def new_NodeCache_def)

lemma stdTTL_cache_get: "stdTTL (snd (cache_get c now k)) = stdTTL c"
  by (simp add: cache_get_def split: option.splits)

lemma stdTTL_cache_set: "stdTTL (cache_set c now k v) = stdTTL c"
  by (simp add: cache_set_def)

lemma configured_wrappers:
  "configured st \<Longrightarrow> configured (snd (getCachedDeconstruction st now k))"
  "configured st \<Longrightarrow> configured (setCachedDeconstruction st now k v)"
  "configured st \<Longrightarrow> configured (snd (getCachedSimulation st now k e c))"
  "configured st \<Longrightarrow> configured (setCachedSimulation st now k e c v)"
  "configured st \<Longrightarrow> configured (snd (getCachedImage st now k))"
  "configured st \<Longrightarrow> configured (setCachedImage st now k v)"
  "configured st \<Longrightarrow> configured (snd (getCachedTranscription st now k))"
  "configured st \<Longrightarrow> configured (setCachedTranscription st now k w)"
  by (simp_all add: configured_def getCachedDeconstruction_def setCachedDeconstruction_def
      getCachedSimulation_def setCachedSimulation_def getCachedImage_def setCachedImage_def
      getCachedTranscription_def setCachedTranscription_def split_def Let_def
      stdTTL_cache_get stdTTL_cache_set)

text \<open>
  Claim C6. In each of the four namespaces, a value stored at the instant \<open>t0\<close> is
  returned unchanged by a lookup of the same key at every instant up to the expiry,
  the instant of the store among them; the expiry is one hour after the store for
  decompositions, thirty minutes for simulations, two hours for images and ten minutes
  for transcriptions, and a lookup after it is a miss.
\<close>

theorem cache_round_trip:
  assumes "configured st" and "0 \<le> t0"
  shows "fst (getCachedDeconstruction (setCachedDeconstruction st t0 k v) t1 k)
           = (if t1 \<le> t0 + 3600000 then Some v else None)
       \<and> fst (getCachedSimulation (setCachedSimulation st t0 k e c v) t1 k e c)
           = (if t1 \<le> t0 + 1800000 then Some v else None)
       \<and> fst (getCachedImage (setCachedImage st t0 k v) t1 k)
           = (if t1 \<le> t0 + 7200000 then Some v else None)
       \<and> fst (getCachedTranscription (setCachedTranscription st t0 k w) t1 k)
           = (if t1 \<le> t0 + 600000 then Some w else None)"
  using assms
  by (simp add: configured_def getCachedDeconstruction_def setCachedDeconstruction_def
      getCachedSimulation_def setCachedSimulation_def getCachedImage_def setCachedImage_def
      getCachedTranscription_def setCachedTranscription_def split_def cache_get_set)

text \<open>
  From the initial state, with a store at the instant 1000: the lookup at that instant
  returns the value, the lookup one millisecond after the hour does not.
\<close>

theorem cache_round_trip_witness:
  "configured initial_state \<and> (0 :: int) \<le> 1000
   \<and> fst (getCachedDeconstruction
            (setCachedDeconstruction initial_state 1000 ''Smartphone'' (JObj [])) 1000
            ''Smartphone'') = Some (JObj [])
   \<and> fst (getCachedDeconstruction
            (setCachedDeconstruction initial_state 1000 ''Smartphone'' (JObj [])) 3601001
            ''Smartphone'') = None"
proof -
  have h: "(0 :: int) \<le> 1000" by simp
  show ?thesis
    using configured_initial
      cache_round_trip [OF configured_initial h, of "''Smartphone''" "JObj []" 1000]
      cache_round_trip [OF configured_initial h, of "''Smartphone''" "JObj []" 3601001]
    by simp
qed

section \<open>The pipeline of the Express routes\<close>

text \<open>
  Claim C7 fails as stated. The request for "Smartphone" passes validation and
  moderation, the limiter admits it and the cache has no entry for it; the OpenAI
  client throws, and the route answers 500 "Failed to deconstruct invention", without
  a \<open>cached\<close> marker and without storing anything.
\<close>

theorem pipeline_counterexample:
  "validateAndModerateInput
      \<lparr>chat_completions_create = (\<lambda>s u. Inl (Error ''Connection error.'')),
       moderations_create = (\<lambda>t. Inr [\<lparr>flagged = False\<rparr>])\<rparr>
      \<lparr>invention = Some ''Smartphone'', era = None, decomposition = None, depth = None,
       creativity = None\<rparr>
     = (Inr \<lparr>sanitized_invention = ''Smartphone'', sanitized_era = ''1800s''\<rparr>,
        [ModerationCall ''Smartphone''])
   \<and> fst (getCachedDeconstruction initial_state 0 ''Smartphone'') = None
   \<and> post_deconstruct
      \<lparr>chat_completions_create = (\<lambda>s u. Inl (Error ''Connection error.'')),
       moderations_create = (\<lambda>t. Inr [\<lparr>flagged = False\<rparr>])\<rparr>
      initial_state 0
      \<lparr>ip = ''203.0.113.7'',
       body = \<lparr>invention = Some ''Smartphone'', era = None, decomposition = None, depth = None,
               creativity = None\<rparr>\<rparr>
     = (\<lparr>statusCode = 500,
         json_body = obj [(''error'', str ''Failed to deconstruct invention'')]\<rparr>,
        initial_state\<lparr>rateLimits := [''203.0.113.7'' \<mapsto> [0]]\<rparr>,
        [ModerationCall ''Smartphone'',
         CacheLookup ''deconstruction'' ''deconstruct_smartphone'',
         PromptBuild ''getDeconstructionPrompt'',
         GPTCall DECONSTRUCTION_SYSTEM (getDeconstructionPrompt ''Smartphone'')])"
proof -
  have v: "validateAndModerateInput
      \<lparr>chat_completions_create = (\<lambda>s u. Inl (Error ''Connection error.'')),
       moderations_create = (\<lambda>t. Inr [\<lparr>flagged = False\<rparr>])\<rparr>
      \<lparr>invention = Some ''Smartphone'', era = None, decomposition = None, depth = None,
       creativity = None\<rparr>
     = (Inr \<lparr>sanitized_invention = ''Smartphone'', sanitized_era = ''1800s''\<rparr>,
        [ModerationCall ''Smartphone''])"
    by (simp add: validateAndModerateInput_def trim_Smartphone keywords_Smartphone
        moderateContent_def)
  have g: "getCachedDeconstruction (initial_state\<lparr>rateLimits := rl\<rparr>) 0 ''Smartphone''
           = (None, initial_state\<lparr>rateLimits := rl\<rparr>)" for rl
    by (simp add: getCachedDeconstruction_def cache_get_def initial_state_def new_NodeCache_def)
  have g0: "fst (getCachedDeconstruction initial_state 0 ''Smartphone'') = None"
    by (simp add: getCachedDeconstruction_def cache_get_def initial_state_def new_NodeCache_def)
  have l: "deconstructLimiter ''203.0.113.7'' 0 (rateLimits initial_state)
           = (None, [''203.0.113.7'' \<mapsto> [0]])"
    by (simp add: deconstructLimiter_def simpleRateLimit_def initial_state_def)
  show ?thesis
    by (simp add: v g0 post_deconstruct_def l deconstruct_handler_def g
        deconstruct_key_Smartphone truthy_def callGPT_def server_error_def)
qed

text \<open>
  Two facts for the examples below: a simulation key, and that the two system prompts
  differ.
\<close>

lemma simulate_key_Smartphone:
  "simulate_key ''Smartphone'' ''1800s'' ''0.7'' = ''simulate_smartphone_1800s_0.7''"
  by code_simp

lemma system_prompts_differ: "SIMULATION_SYSTEM \<noteq> DECONSTRUCTION_SYSTEM"
  by (simp add: SIMULATION_SYSTEM_def DECONSTRUCTION_SYSTEM_def)

text \<open>
  Claim C7 as amended, for the Express routes /deconstruct and /simulate. A request
  that passes validation and moderation and that the rate limiter admits reaches the
  handler of its route, and the response of the route is the response of the handler. On a
  cache hit (a lookup that returns a truthy value) the handler answers with the cached
  value and \<open>cached: true\<close>, and its only effect is the lookup: no prompt is built and
  the provider is not called. On a miss of /deconstruct it builds the prompt and calls
  the provider; when the provider returns a text that parses, it stores the parsed
  value under the key of the lookup and answers with it and \<open>cached: false\<close>; when the
  provider fails or its text does not parse, it answers 500 and stores nothing. On a
  miss of /simulate it first takes the decomposition from the body, or else from the
  decomposition cache, or else from a call of the provider whose parsed result it
  stores in the decomposition cache (answering 500 when that call fails or its text
  does not parse); with the decomposition it builds the prompt and calls the provider;
  when the provider returns a text that parses, it stores the parsed value under the
  key of the lookup and answers with it and \<open>cached: false\<close>; when the provider fails
  or its text does not parse, it answers 500 and stores no simulation, while a
  decomposition generated on the way stays stored.
\<close>

theorem cache_pipeline:
  fixes input :: sanitizedInput and b :: RequestBody and rt :: js_runtime
    and env :: express_env and st :: server_state and now :: int and req :: Req
  defines "subject \<equiv> sanitized_invention input"
    and "period \<equiv> sanitized_era input"
    and "level \<equiv> String_of rt (validatedCreativity b)"
  defines "dkey \<equiv> deconstruct_key subject"
    and "skey \<equiv> simulate_key subject period level"
    and "dprompt \<equiv> getDeconstructionPrompt subject"
    and "sprompt \<equiv> (\<lambda>g. getSimulationPrompt rt subject period g (validatedCreativity b))"
    and "d1 \<equiv> snd (getCachedDeconstruction st now subject)"
    and "s1 \<equiv> snd (getCachedSimulation st now subject period level)"
  defines "s2 \<equiv> snd (getCachedDeconstruction s1 now subject)"
    and "lookup \<equiv> [CacheLookup ''simulation'' skey]"
  defines "looked \<equiv> lookup @ [CacheLookup ''deconstruction'' dkey]"
  defines "asked \<equiv> looked @ [PromptBuild ''getDeconstructionPrompt'',
                                 GPTCall DECONSTRUCTION_SYSTEM dprompt]"
  defines "source \<equiv> (\<lambda>g sx tx.
      (truthy (decomposition b) = Some g \<and> sx = s1 \<and> tx = lookup)
      \<or> (truthy (decomposition b) = None
          \<and> truthy (fst (getCachedDeconstruction s1 now subject)) = Some g
          \<and> sx = s2 \<and> tx = looked)
      \<or> (truthy (decomposition b) = None
          \<and> truthy (fst (getCachedDeconstruction s1 now subject)) = None
          \<and> (\<exists>dr. callGPT env DECONSTRUCTION_SYSTEM dprompt = Inr dr
                    \<and> JSON_parse dr = Some g)
          \<and> sx = setCachedDeconstruction s2 now subject g
          \<and> tx = asked @ [CacheStore ''deconstruction'' dkey]))"
  shows
  "(validateAndModerateInput env (body req) = (Inr input, checked)
       \<and> deconstructLimiter (ip req) now (rateLimits prior) = (None, rl)
       \<and> st = prior\<lparr>rateLimits := rl\<rparr>
      \<longrightarrow> post_deconstruct env prior now req
          = (fst (deconstruct_handler env st now input),
             fst (snd (deconstruct_handler env st now input)),
             checked @ snd (snd (deconstruct_handler env st now input))))
   \<and> (validateAndModerateInput env (body req) = (Inr input, checked)
       \<and> simulateLimiter (ip req) now (rateLimits prior) = (None, rl)
       \<and> st = prior\<lparr>rateLimits := rl\<rparr> \<and> b = body req
      \<longrightarrow> post_simulate rt env prior now req
          = (fst (simulate_handler rt env st now input b),
             fst (snd (simulate_handler rt env st now input b)),
             checked @ snd (snd (simulate_handler rt env st now input b))))
   \<and> (truthy (fst (getCachedDeconstruction st now subject)) = Some c
      \<longrightarrow> deconstruct_handler env st now input
          = (\<lparr>statusCode = 200,
              json_body = obj [(''decomposition'', c), (''cached'', JBool True)]\<rparr>,
             d1, [CacheLookup ''deconstruction'' dkey]))
   \<and> (truthy (fst (getCachedDeconstruction st now subject)) = None
       \<and> callGPT env DECONSTRUCTION_SYSTEM dprompt = Inr resp \<and> JSON_parse resp = Some d
      \<longrightarrow> deconstruct_handler env st now input
          = (\<lparr>statusCode = 200,
              json_body = obj [(''decomposition'', d), (''cached'', JBool False)]\<rparr>,
             setCachedDeconstruction d1 now subject d,
             [CacheLookup ''deconstruction'' dkey, PromptBuild ''getDeconstructionPrompt'',
              GPTCall DECONSTRUCTION_SYSTEM dprompt, CacheStore ''deconstruction'' dkey]))
   \<and> (truthy (fst (getCachedDeconstruction st now subject)) = None
       \<and> isl (callGPT env DECONSTRUCTION_SYSTEM dprompt)
      \<longrightarrow> deconstruct_handler env st now input
          = (\<lparr>statusCode = 500,
              json_body = obj [(''error'', str ''Failed to deconstruct invention'')]\<rparr>,
             d1,
             [CacheLookup ''deconstruction'' dkey, PromptBuild ''getDeconstructionPrompt'',
              GPTCall DECONSTRUCTION_SYSTEM dprompt]))
   \<and> (truthy (fst (getCachedDeconstruction st now subject)) = None
       \<and> callGPT env DECONSTRUCTION_SYSTEM dprompt = Inr resp \<and> JSON_parse resp = None
      \<longrightarrow> deconstruct_handler env st now input
          = (\<lparr>statusCode = 500,
              json_body = obj [(''error'', str ''Failed to parse AI response'')]\<rparr>,
             d1,
             [CacheLookup ''deconstruction'' dkey, PromptBuild ''getDeconstructionPrompt'',
              GPTCall DECONSTRUCTION_SYSTEM dprompt]))
   \<and> (truthy (fst (getCachedSimulation st now subject period level)) = Some c
      \<longrightarrow> simulate_handler rt env st now input b
          = (\<lparr>statusCode = 200,
              json_body = obj [(''simulations'', c), (''cached'', JBool True)]\<rparr>,
             s1, lookup))
   \<and> (truthy (fst (getCachedSimulation st now subject period level)) = None
       \<and> source g sx tx
       \<and> callGPT env SIMULATION_SYSTEM (sprompt g) = Inr resp \<and> JSON_parse resp = Some d
      \<longrightarrow> simulate_handler rt env st now input b
          = (\<lparr>statusCode = 200,
              json_body = obj [(''simulations'', d), (''cached'', JBool False)]\<rparr>,
             setCachedSimulation sx now subject period level d,
             tx @ [PromptBuild ''getSimulationPrompt'', GPTCall SIMULATION_SYSTEM (sprompt g),
                   CacheStore ''simulation'' skey]))
   \<and> (truthy (fst (getCachedSimulation st now subject period level)) = None
       \<and> source g sx tx
       \<and> isl (callGPT env SIMULATION_SYSTEM (sprompt g))
      \<longrightarrow> simulate_handler rt env st now input b
          = (\<lparr>statusCode = 500,
              json_body = obj [(''error'', str ''Failed to generate simulations'')]\<rparr>,
             sx,
             tx @ [PromptBuild ''getSimulationPrompt'',
                   GPTCall SIMULATION_SYSTEM (sprompt g)]))
   \<and> (truthy (fst (getCachedSimulation st now subject period level)) = None
       \<and> source g sx tx
       \<and> callGPT env SIMULATION_SYSTEM (sprompt g) = Inr resp \<and> JSON_parse resp = None
      \<longrightarrow> simulate_handler rt env st now input b
          = (\<lparr>statusCode = 500,
              json_body = obj [(''error'', str ''Failed to parse simulation results'')]\<rparr>,
             sx,
             tx @ [PromptBuild ''getSimulationPrompt'',
                   GPTCall SIMULATION_SYSTEM (sprompt g)]))
   \<and> (truthy (fst (getCachedSimulation st now subject period level)) = None
       \<and> truthy (decomposition b) = None
       \<and> truthy (fst (getCachedDeconstruction s1 now subject)) = None
       \<and> isl (callGPT env DECONSTRUCTION_SYSTEM dprompt)
      \<longrightarrow> simulate_handler rt env st now input b
          = (\<lparr>statusCode = 500,
              json_body = obj [(''error'', str ''Failed to generate simulations'')]\<rparr>,
             s2, asked))
   \<and> (truthy (fst (getCachedSimulation st now subject period level)) = None
       \<and> truthy (decomposition b) = None
       \<and> truthy (fst (getCachedDeconstruction s1 now subject)) = None
       \<and> callGPT env DECONSTRUCTION_SYSTEM dprompt = Inr resp \<and> JSON_parse resp = None
      \<longrightarrow> simulate_handler rt env st now input b
          = (\<lparr>statusCode = 500,
              json_body = obj [(''error'', str ''Failed to analyze invention'')]\<rparr>,
             s2, asked))"
  unfolding source_def asked_def looked_def lookup_def s2_def s1_def d1_def sprompt_def
    dprompt_def skey_def dkey_def level_def period_def subject_def
proof (intro conjI impI)
  assume "validateAndModerateInput env (body req) = (Inr input, checked)
          \<and> deconstructLimiter (ip req) now (rateLimits prior) = (None, rl)
          \<and> st = prior\<lparr>rateLimits := rl\<rparr>"
  then show "post_deconstruct env prior now req
          = (fst (deconstruct_handler env st now input),
             fst (snd (deconstruct_handler env st now input)),
             checked @ snd (snd (deconstruct_handler env st now input)))"
    by (simp add: post_deconstruct_def split_def)
next
  assume "validateAndModerateInput env (body req) = (Inr input, checked)
          \<and> simulateLimiter (ip req) now (rateLimits prior) = (None, rl)
          \<and> st = prior\<lparr>rateLimits := rl\<rparr> \<and> b = body req"
  then show "post_simulate rt env prior now req
          = (fst (simulate_handler rt env st now input b),
             fst (snd (simulate_handler rt env st now input b)),
             checked @ snd (snd (simulate_handler rt env st now input b)))"
    by (simp add: post_simulate_def split_def)
qed (auto simp: deconstruct_handler_def simulate_handler_def Let_def split_def
       server_error_def split: sum.splits)

text \<open>
  The theorem at concrete requests for ``Smartphone'' in the ``1800s'', with a runtime
  that renders the default creativity as \<open>0.7\<close>. On /deconstruct: a stored
  decomposition is served at instant 5; on an empty cache the provider is called and
  its result stored; a failing provider gives 500 and leaves the state as it was. On
  /simulate: a stored simulation is served; with a decomposition in the body and an
  empty cache the provider is called and its result stored; with no decomposition in
  the body and a provider that answers the decomposition request and fails on the
  simulation request, the answer is 500 and the decomposition generated on the way is
  in the decomposition cache; with a provider that fails on every request the answer
  is 500 and the state is as it was. The last example is the route /simulate itself,
  entered with the body of the request and the address of the client, with the provider
  that fails on the simulation request only.
\<close>

theorem cache_pipeline_witness:
  "deconstruct_handler
      \<lparr>chat_completions_create = (\<lambda>s u. Inr ''{}''),
       moderations_create = (\<lambda>t. Inr [\<lparr>flagged = False\<rparr>])\<rparr>
      (setCachedDeconstruction initial_state 0 ''Smartphone'' (JObj [])) 5
      \<lparr>sanitized_invention = ''Smartphone'', sanitized_era = ''1800s''\<rparr>
     = (\<lparr>statusCode = 200,
         json_body = obj [(''decomposition'', JObj []), (''cached'', JBool True)]\<rparr>,
        setCachedDeconstruction initial_state 0 ''Smartphone'' (JObj []),
        [CacheLookup ''deconstruction'' ''deconstruct_smartphone''])
   \<and> deconstruct_handler
      \<lparr>chat_completions_create = (\<lambda>s u. Inr ''{}''),
       moderations_create = (\<lambda>t. Inr [\<lparr>flagged = False\<rparr>])\<rparr>
      initial_state 5
      \<lparr>sanitized_invention = ''Smartphone'', sanitized_era = ''1800s''\<rparr>
     = (\<lparr>statusCode = 200,
         json_body = obj [(''decomposition'', JObj []), (''cached'', JBool False)]\<rparr>,
        setCachedDeconstruction initial_state 5 ''Smartphone'' (JObj []),
        [CacheLookup ''deconstruction'' ''deconstruct_smartphone'',
         PromptBuild ''getDeconstructionPrompt'',
         GPTCall DECONSTRUCTION_SYSTEM (getDeconstructionPrompt ''Smartphone''),
         CacheStore ''deconstruction'' ''deconstruct_smartphone''])
   \<and> deconstruct_handler
      \<lparr>chat_completions_create = (\<lambda>s u. Inl (Error ''Connection error.'')),
       moderations_create = (\<lambda>t. Inr [\<lparr>flagged = False\<rparr>])\<rparr>
      initial_state 5
      \<lparr>sanitized_invention = ''Smartphone'', sanitized_era = ''1800s''\<rparr>
     = (\<lparr>statusCode = 500,
         json_body = obj [(''error'', str ''Failed to deconstruct invention'')]\<rparr>,
        initial_state,
        [CacheLookup ''deconstruction'' ''deconstruct_smartphone'',
         PromptBuild ''getDeconstructionPrompt'',
         GPTCall DECONSTRUCTION_SYSTEM (getDeconstructionPrompt ''Smartphone'')])
   \<and> simulate_handler
      \<lparr>String_of = (\<lambda>n. ''0.7''), JSON_stringify = (\<lambda>j. ''{}''),
       JSON_stringify_indented = (\<lambda>j. ''{}'')\<rparr>
      \<lparr>chat_completions_create = (\<lambda>s u. Inr ''{}''),
       moderations_create = (\<lambda>t. Inr [\<lparr>flagged = False\<rparr>])\<rparr>
      (setCachedSimulation initial_state 0 ''Smartphone'' ''1800s'' ''0.7'' (JObj [])) 5
      \<lparr>sanitized_invention = ''Smartphone'', sanitized_era = ''1800s''\<rparr>
      \<lparr>invention = Some ''Smartphone'', era = Some ''1800s'', decomposition = None,
       depth = None, creativity = None\<rparr>
     = (\<lparr>statusCode = 200,
         json_body = obj [(''simulations'', JObj []), (''cached'', JBool True)]\<rparr>,
        setCachedSimulation initial_state 0 ''Smartphone'' ''1800s'' ''0.7'' (JObj []),
        [CacheLookup ''simulation'' ''simulate_smartphone_1800s_0.7''])
   \<and> simulate_handler
      \<lparr>String_of = (\<lambda>n. ''0.7''), JSON_stringify = (\<lambda>j. ''{}''),
       JSON_stringify_indented = (\<lambda>j. ''{}'')\<rparr>
      \<lparr>chat_completions_create = (\<lambda>s u. Inr ''{}''),
       moderations_create = (\<lambda>t. Inr [\<lparr>flagged = False\<rparr>])\<rparr>
      initial_state 5
      \<lparr>sanitized_invention = ''Smartphone'', sanitized_era = ''1800s''\<rparr>
      \<lparr>invention = Some ''Smartphone'', era = Some ''1800s'',
       decomposition = Some (JObj []), depth = None, creativity = None\<rparr>
     = (\<lparr>statusCode = 200,
         json_body = obj [(''simulations'', JObj []), (''cached'', JBool False)]\<rparr>,
        setCachedSimulation initial_state 5 ''Smartphone'' ''1800s'' ''0.7'' (JObj []),
        [CacheLookup ''simulation'' ''simulate_smartphone_1800s_0.7'',
         PromptBuild ''getSimulationPrompt'',
         GPTCall SIMULATION_SYSTEM
           (getSimulationPrompt
              \<lparr>String_of = (\<lambda>n. ''0.7''), JSON_stringify = (\<lambda>j. ''{}''),
               JSON_stringify_indented = (\<lambda>j. ''{}'')\<rparr>
              ''Smartphone'' ''1800s'' (JObj []) (7 / 10)),
         CacheStore ''simulation'' ''simulate_smartphone_1800s_0.7''])
   \<and> simulate_handler
      \<lparr>String_of = (\<lambda>n. ''0.7''), JSON_stringify = (\<lambda>j. ''{}''),
       JSON_stringify_indented = (\<lambda>j. ''{}'')\<rparr>
      \<lparr>chat_completions_create =
         (\<lambda>s u. if s = DECONSTRUCTION_SYSTEM then Inr ''{}''
                 else Inl (Error ''Connection error.'')),
       moderations_create = (\<lambda>t. Inr [\<lparr>flagged = False\<rparr>])\<rparr>
      initial_state 5
      \<lparr>sanitized_invention = ''Smartphone'', sanitized_era = ''1800s''\<rparr>
      \<lparr>invention = Some ''Smartphone'', era = Some ''1800s'', decomposition = None,
       depth = None, creativity = None\<rparr>
     = (\<lparr>statusCode = 500,
         json_body = obj [(''error'', str ''Failed to generate simulations'')]\<rparr>,
        setCachedDeconstruction initial_state 5 ''Smartphone'' (JObj []),
        [CacheLookup ''simulation'' ''simulate_smartphone_1800s_0.7'',
         CacheLookup ''deconstruction'' ''deconstruct_smartphone'',
         PromptBuild ''getDeconstructionPrompt'',
         GPTCall DECONSTRUCTION_SYSTEM (getDeconstructionPrompt ''Smartphone''),
         CacheStore ''deconstruction'' ''deconstruct_smartphone'',
         PromptBuild ''getSimulationPrompt'',
         GPTCall SIMULATION_SYSTEM
           (getSimulationPrompt
              \<lparr>String_of = (\<lambda>n. ''0.7''), JSON_stringify = (\<lambda>j. ''{}''),
               JSON_stringify_indented = (\<lambda>j. ''{}'')\<rparr>
              ''Smartphone'' ''1800s'' (JObj []) (7 / 10))])
   \<and> fst (getCachedDeconstruction
             (setCachedDeconstruction initial_state 5 ''Smartphone'' (JObj [])) 6
             ''Smartphone'') = Some (JObj [])
   \<and> simulate_handler
      \<lparr>String_of = (\<lambda>n. ''0.7''), JSON_stringify = (\<lambda>j. ''{}''),
       JSON_stringify_indented = (\<lambda>j. ''{}'')\<rparr>
      \<lparr>chat_completions_create = (\<lambda>s u. Inl (Error ''Connection error.'')),
       moderations_create = (\<lambda>t. Inr [\<lparr>flagged = False\<rparr>])\<rparr>
      initial_state 5
      \<lparr>sanitized_invention = ''Smartphone'', sanitized_era = ''1800s''\<rparr>
      \<lparr>invention = Some ''Smartphone'', era = Some ''1800s'', decomposition = None,
       depth = None, creativity = None\<rparr>
     = (\<lparr>statusCode = 500,
         json_body = obj [(''error'', str ''Failed to generate simulations'')]\<rparr>,
        initial_state,
        [CacheLookup ''simulation'' ''simulate_smartphone_1800s_0.7'',
         CacheLookup ''deconstruction'' ''deconstruct_smartphone'',
         PromptBuild ''getDeconstructionPrompt'',
         GPTCall DECONSTRUCTION_SYSTEM (getDeconstructionPrompt ''Smartphone'')])
   \<and> post_simulate
      \<lparr>String_of = (\<lambda>n. ''0.7''), JSON_stringify = (\<lambda>j. ''{}''),
       JSON_stringify_indented = (\<lambda>j. ''{}'')\<rparr>
      \<lparr>chat_completions_create =
         (\<lambda>s u. if s = DECONSTRUCTION_SYSTEM then Inr ''{}''
                 else Inl (Error ''Connection error.'')),
       moderations_create = (\<lambda>t. Inr [\<lparr>flagged = False\<rparr>])\<rparr>
      initial_state 5
      \<lparr>ip = ''203.0.113.7'',
       body = \<lparr>invention = Some ''Smartphone'', era = None, decomposition = None,
               depth = None, creativity = None\<rparr>\<rparr>
     = (\<lparr>statusCode = 500,
         json_body = obj [(''error'', str ''Failed to generate simulations'')]\<rparr>,
        setCachedDeconstruction (initial_state\<lparr>rateLimits := [''203.0.113.7'' \<mapsto> [5]]\<rparr>)
          5 ''Smartphone'' (JObj []),
        [ModerationCall ''Smartphone'',
         CacheLookup ''simulation'' ''simulate_smartphone_1800s_0.7'',
         CacheLookup ''deconstruction'' ''deconstruct_smartphone'',
         PromptBuild ''getDeconstructionPrompt'',
         GPTCall DECONSTRUCTION_SYSTEM (getDeconstructionPrompt ''Smartphone''),
         CacheStore ''deconstruction'' ''deconstruct_smartphone'',
         PromptBuild ''getSimulationPrompt'',
         GPTCall SIMULATION_SYSTEM
           (getSimulationPrompt
              \<lparr>String_of = (\<lambda>n. ''0.7''), JSON_stringify = (\<lambda>j. ''{}''),
               JSON_stringify_indented = (\<lambda>j. ''{}'')\<rparr>
              ''Smartphone'' ''1800s'' (JObj []) (7 / 10))])"
proof -
  let ?rt = "\<lparr>String_of = (\<lambda>n. ''0.7''), JSON_stringify = (\<lambda>j. ''{}''),
              JSON_stringify_indented = (\<lambda>j. ''{}'')\<rparr>"
  let ?ok = "\<lparr>chat_completions_create = (\<lambda>s u. Inr ''{}''),
              moderations_create = (\<lambda>t. Inr [\<lparr>flagged = False\<rparr>])\<rparr>"
  let ?down = "\<lparr>chat_completions_create = (\<lambda>s u. Inl (Error ''Connection error.'')),
                moderations_create = (\<lambda>t. Inr [\<lparr>flagged = False\<rparr>])\<rparr>"
  let ?half = "\<lparr>chat_completions_create =
                  (\<lambda>s u. if s = DECONSTRUCTION_SYSTEM then Inr ''{}''
                          else Inl (Error ''Connection error.'')),
                moderations_create = (\<lambda>t. Inr [\<lparr>flagged = False\<rparr>])\<rparr>"
  let ?input = "\<lparr>sanitized_invention = ''Smartphone'', sanitized_era = ''1800s''\<rparr>"
  let ?b = "\<lparr>invention = Some ''Smartphone'', era = Some ''1800s'', decomposition = None,
             depth = None, creativity = None\<rparr>"
  let ?bd = "\<lparr>invention = Some ''Smartphone'', era = Some ''1800s'',
              decomposition = Some (JObj []), depth = None, creativity = None\<rparr>"
  let ?dstored = "setCachedDeconstruction initial_state 0 ''Smartphone'' (JObj [])"
  let ?sstored = "setCachedSimulation initial_state 0 ''Smartphone'' ''1800s'' ''0.7'' (JObj [])"
  have hitD: "getCachedDeconstruction ?dstored 5 ''Smartphone'' = (Some (JObj []), ?dstored)"
    by (simp add: getCachedDeconstruction_def setCachedDeconstruction_def cache_get_def
        cache_set_def initial_state_def new_NodeCache_def)
  have missD: "getCachedDeconstruction initial_state 5 ''Smartphone'' = (None, initial_state)"
    by (simp add: getCachedDeconstruction_def cache_get_def initial_state_def new_NodeCache_def)
  have hitS: "getCachedSimulation ?sstored 5 ''Smartphone'' ''1800s'' ''0.7''
              = (Some (JObj []), ?sstored)"
    by (simp add: getCachedSimulation_def setCachedSimulation_def cache_get_def
        cache_set_def initial_state_def new_NodeCache_def)
  have missS: "getCachedSimulation initial_state 5 ''Smartphone'' ''1800s'' ''0.7''
               = (None, initial_state)"
    by (simp add: getCachedSimulation_def cache_get_def initial_state_def new_NodeCache_def)
  have later: "getCachedDeconstruction
                 (setCachedDeconstruction initial_state 5 ''Smartphone'' (JObj [])) 6
                 ''Smartphone''
               = (Some (JObj []), setCachedDeconstruction initial_state 5 ''Smartphone'' (JObj []))"
    by (simp add: getCachedDeconstruction_def setCachedDeconstruction_def cache_get_def
        cache_set_def initial_state_def new_NodeCache_def)
  let ?plain = "\<lparr>invention = Some ''Smartphone'', era = None, decomposition = None,
              depth = None, creativity = None\<rparr>"
  let ?admitted = "initial_state\<lparr>rateLimits := [''203.0.113.7'' \<mapsto> [5]]\<rparr>"
  have level: "validatedCreativity ?b = 7 / 10" "validatedCreativity ?bd = 7 / 10"
    "validatedCreativity ?plain = 7 / 10"
    by (simp_all add: validatedCreativity_def)
  have checked: "validateAndModerateInput ?half ?plain = (Inr ?input, [ModerationCall ''Smartphone''])"
    by (simp add: validateAndModerateInput_def trim_Smartphone keywords_Smartphone
        moderateContent_def)
  have admitted: "simulateLimiter ''203.0.113.7'' 5 (rateLimits initial_state)
                  = (None, [''203.0.113.7'' \<mapsto> [5]])"
    by (simp add: simulateLimiter_def simpleRateLimit_def initial_state_def)
  have missS': "getCachedSimulation ?admitted 5 ''Smartphone'' ''1800s'' ''0.7''
                = (None, ?admitted)"
    by (simp add: getCachedSimulation_def cache_get_def initial_state_def new_NodeCache_def)
  have missD': "getCachedDeconstruction ?admitted 5 ''Smartphone'' = (None, ?admitted)"
    by (simp add: getCachedDeconstruction_def cache_get_def initial_state_def new_NodeCache_def)
  note ev = hitD missD hitS missS level truthy_def callGPT_def JSON_parse_empty_object
    deconstruct_key_Smartphone simulate_key_Smartphone system_prompts_differ
  show ?thesis
  proof (intro conjI)
    show "deconstruct_handler ?ok ?dstored 5 ?input
          = (\<lparr>statusCode = 200,
              json_body = obj [(''decomposition'', JObj []), (''cached'', JBool True)]\<rparr>,
             ?dstored, [CacheLookup ''deconstruction'' ''deconstruct_smartphone''])"
      using cache_pipeline [where st = ?dstored and now = 5 and input = ?input
          and env = ?ok and c = "JObj []"]
      by (simp add: ev)
    show "deconstruct_handler ?ok initial_state 5 ?input
          = (\<lparr>statusCode = 200,
              json_body = obj [(''decomposition'', JObj []), (''cached'', JBool False)]\<rparr>,
             setCachedDeconstruction initial_state 5 ''Smartphone'' (JObj []),
             [CacheLookup ''deconstruction'' ''deconstruct_smartphone'',
              PromptBuild ''getDeconstructionPrompt'',
              GPTCall DECONSTRUCTION_SYSTEM (getDeconstructionPrompt ''Smartphone''),
              CacheStore ''deconstruction'' ''deconstruct_smartphone''])"
      using cache_pipeline [where st = initial_state and now = 5 and input = ?input
          and env = ?ok and resp = "''{}''" and d = "JObj []"]
      by (simp add: ev)
    show "deconstruct_handler ?down initial_state 5 ?input
          = (\<lparr>statusCode = 500,
              json_body = obj [(''error'', str ''Failed to deconstruct invention'')]\<rparr>,
             initial_state,
             [CacheLookup ''deconstruction'' ''deconstruct_smartphone'',
              PromptBuild ''getDeconstructionPrompt'',
              GPTCall DECONSTRUCTION_SYSTEM (getDeconstructionPrompt ''Smartphone'')])"
      using cache_pipeline [where st = initial_state and now = 5 and input = ?input
          and env = ?down]
      by (simp add: ev)
    show "simulate_handler ?rt ?ok ?sstored 5 ?input ?b
          = (\<lparr>statusCode = 200,
              json_body = obj [(''simulations'', JObj []), (''cached'', JBool True)]\<rparr>,
             ?sstored, [CacheLookup ''simulation'' ''simulate_smartphone_1800s_0.7''])"
      using cache_pipeline [where st = ?sstored and now = 5 and input = ?input
          and env = ?ok and rt = ?rt and b = ?b and c = "JObj []"]
      by (simp add: ev)
    show "simulate_handler ?rt ?ok initial_state 5 ?input ?bd
          = (\<lparr>statusCode = 200,
              json_body = obj [(''simulations'', JObj []), (''cached'', JBool False)]\<rparr>,
             setCachedSimulation initial_state 5 ''Smartphone'' ''1800s'' ''0.7'' (JObj []),
             [CacheLookup ''simulation'' ''simulate_smartphone_1800s_0.7'',
              PromptBuild ''getSimulationPrompt'',
              GPTCall SIMULATION_SYSTEM
                (getSimulationPrompt ?rt ''Smartphone'' ''1800s'' (JObj []) (7 / 10)),
              CacheStore ''simulation'' ''simulate_smartphone_1800s_0.7''])"
      using cache_pipeline [where st = initial_state and now = 5 and input = ?input
          and env = ?ok and rt = ?rt and b = ?bd and g = "JObj []" and sx = initial_state
          and tx = "[CacheLookup ''simulation'' ''simulate_smartphone_1800s_0.7'']"
          and resp = "''{}''" and d = "JObj []"]
      by (simp add: ev)
    show "simulate_handler ?rt ?half initial_state 5 ?input ?b
          = (\<lparr>statusCode = 500,
              json_body = obj [(''error'', str ''Failed to generate simulations'')]\<rparr>,
             setCachedDeconstruction initial_state 5 ''Smartphone'' (JObj []),
             [CacheLookup ''simulation'' ''simulate_smartphone_1800s_0.7'',
              CacheLookup ''deconstruction'' ''deconstruct_smartphone'',
              PromptBuild ''getDeconstructionPrompt'',
              GPTCall DECONSTRUCTION_SYSTEM (getDeconstructionPrompt ''Smartphone''),
              CacheStore ''deconstruction'' ''deconstruct_smartphone'',
              PromptBuild ''getSimulationPrompt'',
              GPTCall SIMULATION_SYSTEM
                (getSimulationPrompt ?rt ''Smartphone'' ''1800s'' (JObj []) (7 / 10))])"
      using cache_pipeline [where st = initial_state and now = 5 and input = ?input
          and env = ?half and rt = ?rt and b = ?b and g = "JObj []"
          and sx = "setCachedDeconstruction initial_state 5 ''Smartphone'' (JObj [])"
          and tx = "[CacheLookup ''simulation'' ''simulate_smartphone_1800s_0.7'',
                     CacheLookup ''deconstruction'' ''deconstruct_smartphone'',
                     PromptBuild ''getDeconstructionPrompt'',
                     GPTCall DECONSTRUCTION_SYSTEM (getDeconstructionPrompt ''Smartphone''),
                     CacheStore ''deconstruction'' ''deconstruct_smartphone'']"]
      by (simp add: ev)
    show "fst (getCachedDeconstruction
                 (setCachedDeconstruction initial_state 5 ''Smartphone'' (JObj [])) 6
                 ''Smartphone'') = Some (JObj [])"
      by (simp add: later)
    show "simulate_handler ?rt ?down initial_state 5 ?input ?b
          = (\<lparr>statusCode = 500,
              json_body = obj [(''error'', str ''Failed to generate simulations'')]\<rparr>,
             initial_state,
             [CacheLookup ''simulation'' ''simulate_smartphone_1800s_0.7'',
              CacheLookup ''deconstruction'' ''deconstruct_smartphone'',
              PromptBuild ''getDeconstructionPrompt'',
              GPTCall DECONSTRUCTION_SYSTEM (getDeconstructionPrompt ''Smartphone'')])"
      using cache_pipeline [where st = initial_state and now = 5 and input = ?input
          and env = ?down and rt = ?rt and b = ?b]
      by (simp add: ev)
    show "post_simulate ?rt ?half initial_state 5 \<lparr>ip = ''203.0.113.7'', body = ?plain\<rparr>
          = (\<lparr>statusCode = 500,
              json_body = obj [(''error'', str ''Failed to generate simulations'')]\<rparr>,
             setCachedDeconstruction ?admitted 5 ''Smartphone'' (JObj []),
             [ModerationCall ''Smartphone'',
              CacheLookup ''simulation'' ''simulate_smartphone_1800s_0.7'',
              CacheLookup ''deconstruction'' ''deconstruct_smartphone'',
              PromptBuild ''getDeconstructionPrompt'',
              GPTCall DECONSTRUCTION_SYSTEM (getDeconstructionPrompt ''Smartphone''),
              CacheStore ''deconstruction'' ''deconstruct_smartphone'',
              PromptBuild ''getSimulationPrompt'',
              GPTCall SIMULATION_SYSTEM
                (getSimulationPrompt ?rt ''Smartphone'' ''1800s'' (JObj []) (7 / 10))])"
      using cache_pipeline [where prior = initial_state and rl = "[''203.0.113.7'' \<mapsto> [5]]"
          and st = ?admitted and now = 5 and input = ?input
          and req = "\<lparr>ip = ''203.0.113.7'', body = ?plain\<rparr>"
          and checked = "[ModerationCall ''Smartphone'']"
          and env = ?half and rt = ?rt and b = ?plain and g = "JObj []"
          and sx = "setCachedDeconstruction ?admitted 5 ''Smartphone'' (JObj [])"
          and tx = "[CacheLookup ''simulation'' ''simulate_smartphone_1800s_0.7'',
                     CacheLookup ''deconstruction'' ''deconstruct_smartphone'',
                     PromptBuild ''getDeconstructionPrompt'',
                     GPTCall DECONSTRUCTION_SYSTEM (getDeconstructionPrompt ''Smartphone''),
                     CacheStore ''deconstruction'' ''deconstruct_smartphone'']"]
      by (simp add: ev checked admitted missS' missD')
  qed
qed

section \<open>The image cache key\<close>

lemma base64_append:
  "length xs mod 3 = 0 \<Longrightarrow> base64 (xs @ ys) = base64 xs @ base64 ys"
  by (induction xs rule: base64.induct) simp_all

lemma length_base64_full:
  "length xs mod 3 = 0 \<Longrightarrow> length (base64 xs) = 4 * (length xs div 3)"
  by (induction xs rule: base64.induct) simp_all

lemma utf8_append: "utf8 (p @ s) = utf8 p @ utf8 s"
  by (simp add: utf8_def)

text \<open>
  Fifty characters of base64 stand for the first thirty-seven bytes and a half: what
  follows the first thirty-nine bytes of a prompt has no part in the key.
\<close>

lemma image_key_prefix:
  assumes "length (utf8 p) = 39"
  shows "image_key (p @ s) = ''image_'' @ take 50 (base64 (utf8 p))"
proof -
  have m: "length (utf8 p) mod 3 = 0" using assms by simp
  have "length (base64 (utf8 p)) = 52"
    using length_base64_full [OF m] assms by simp
  then show ?thesis
    by (simp add: image_key_def utf8_append base64_append [OF m])
qed

lemma length_utf8_example: "length (utf8 ''A detailed technical illustration of a '') = 39"
  by (simp add: utf8_def)

text \<open>
  Claim C8. The key of an image is the prefix \<open>image_\<close> and the first fifty characters
  of the base64 text of the prompt. There are two distinct prompts with the same key;
  a lookup for the second finds whatever a lookup for the first finds, and so returns
  the value that was stored for the first.
\<close>

theorem image_key_collision:
  "image_key prompt = ''image_'' @ take 50 (base64 (utf8 prompt))
   \<and> (\<exists>p1 p2. p1 \<noteq> p2 \<and> image_key p1 = image_key p2
        \<and> (\<forall>st t t' v. getCachedImage (setCachedImage st t p1 v) t' p2
                        = getCachedImage (setCachedImage st t p1 v) t' p1)
        \<and> (\<forall>v. fst (getCachedImage (setCachedImage initial_state 0 p1 v) 0 p2) = Some v))"
proof -
  let ?p = "''A detailed technical illustration of a ''"
  let ?p1 = "?p @ ''brass telephone''" and ?p2 = "?p @ ''wooden telephone''"
  have k: "image_key ?p1 = image_key ?p2"
    by (simp only: image_key_prefix [OF length_utf8_example])
  have d: "?p1 \<noteq> ?p2" by simp
  have a: "getCachedImage (setCachedImage st t ?p1 v) t' ?p2
            = getCachedImage (setCachedImage st t ?p1 v) t' ?p1" for st t t' v
    by (simp only: getCachedImage_def k)
  have b: "fst (getCachedImage (setCachedImage initial_state 0 ?p1 v) 0 ?p2) = Some v" for v
    unfolding a
    by (simp add: getCachedImage_def setCachedImage_def cache_get_def cache_set_def
        initial_state_def new_NodeCache_def)
  show ?thesis
  proof (rule conjI)
    show "image_key prompt = ''image_'' @ take 50 (base64 (utf8 prompt))"
      by (simp only: image_key_def)
    show "\<exists>p1 p2. p1 \<noteq> p2 \<and> image_key p1 = image_key p2
        \<and> (\<forall>st t t' v. getCachedImage (setCachedImage st t p1 v) t' p2
                        = getCachedImage (setCachedImage st t p1 v) t' p1)
        \<and> (\<forall>v. fst (getCachedImage (setCachedImage initial_state 0 p1 v) 0 p2) = Some v)"
    proof (rule exI [of _ ?p1], rule exI [of _ ?p2], intro conjI allI)
      show "?p1 \<noteq> ?p2" by (rule d)
      show "image_key ?p1 = image_key ?p2" by (rule k)
      show "getCachedImage (setCachedImage st t ?p1 v) t' ?p2
            = getCachedImage (setCachedImage st t ?p1 v) t' ?p1" for st t t' v
        by (rule a)
      show "fst (getCachedImage (setCachedImage initial_state 0 ?p1 v) 0 ?p2) = Some v" for v
        by (rule b)
    qed
  qed
qed

section \<open>Moderation\<close>

text \<open>
  Claim C9. For a request that passes validation: when the call to the moderation
  service fails and no keyword matches, the middleware calls \<open>next()\<close>, and the route
  goes on to the rate limiter and the handler; and the middleware answers with a
  response, the 400 of moderation, exactly when a keyword matches or the service
  returns a first result that is flagged.
\<close>

theorem moderation_fail_open:
  assumes "invention b = Some s" and "trim s \<noteq> []" and "length s \<le> 100"
  shows "(\<not> checkModerationKeywords s \<and> isl (moderations_create env s)
            \<longrightarrow> validateAndModerateInput env b
                  = (Inr \<lparr>sanitized_invention = trim s,
                          sanitized_era = (case era b of None \<Rightarrow> ''1800s''
                                           | Some e \<Rightarrow> if e = [] then ''1800s'' else trim e)\<rparr>,
                     [ModerationCall s])
                \<and> post_deconstruct env st now \<lparr>ip = a, body = b\<rparr>
                  = (case deconstructLimiter a now (rateLimits st) of
                       (Some res, rl) \<Rightarrow> (res, st\<lparr>rateLimits := rl\<rparr>, [ModerationCall s])
                     | (None, rl) \<Rightarrow>
                         (case deconstruct_handler env (st\<lparr>rateLimits := rl\<rparr>) now
                                 \<lparr>sanitized_invention = trim s,
                                  sanitized_era = (case era b of None \<Rightarrow> ''1800s''
                                                   | Some e \<Rightarrow> if e = [] then ''1800s''
                                                               else trim e)\<rparr> of
                            (res, st', tr') \<Rightarrow> (res, st', ModerationCall s # tr'))))
       \<and> ((\<exists>res tr. validateAndModerateInput env b = (Inl res, tr))
            \<longleftrightarrow> checkModerationKeywords s
                \<or> (\<exists>r rs. moderations_create env s = Inr (r # rs) \<and> flagged r))
       \<and> (\<forall>res tr. validateAndModerateInput env b = (Inl res, tr)
            \<longrightarrow> res = bad_request ''Invalid invention topic''
                \<or> res = bad_request ''Content flagged by moderation system'')"
proof -
  from assms(2) have ne: "s \<noteq> []" by (rule trim_nonempty)
  show ?thesis
    using assms ne
    by (cases "moderations_create env s")
       (auto simp: validateAndModerateInput_def moderateContent_def Let_def post_deconstruct_def
             split: list.splits prod.splits option.splits)
qed

text \<open>
  The moderation service is down (the client throws); the request for "Smartphone" is
  passed on, and the limiter admits it.
\<close>

theorem moderation_fail_open_witness:
  "trim ''Smartphone'' \<noteq> [] \<and> length ''Smartphone'' \<le> 100
   \<and> \<not> checkModerationKeywords ''Smartphone''
   \<and> validateAndModerateInput
        \<lparr>chat_completions_create = (\<lambda>s u. Inr ''{}''),
         moderations_create = (\<lambda>t. Inl (Error ''503 Service Unavailable''))\<rparr>
        \<lparr>invention = Some ''Smartphone'', era = None, decomposition = None, depth = None,
         creativity = None\<rparr>
      = (Inr \<lparr>sanitized_invention = ''Smartphone'', sanitized_era = ''1800s''\<rparr>,
         [ModerationCall ''Smartphone''])"
proof -
  have t: "trim ''Smartphone'' \<noteq> []" by (simp add: trim_Smartphone)
  have l: "length ''Smartphone'' \<le> 100" by simp
  show ?thesis
    using t l keywords_Smartphone
      moderation_fail_open [OF _ t l,
        of "\<lparr>invention = Some ''Smartphone'', era = None, decomposition = None, depth = None,
             creativity = None\<rparr>"
           "\<lparr>chat_completions_create = (\<lambda>s u. Inr ''{}''),
             moderations_create = (\<lambda>t. Inl (Error ''503 Service Unavailable''))\<rparr>"]
    by (simp add: trim_Smartphone)
qed

section \<open>The rate limiter\<close>

text \<open>
  What one limiter does to the entry of its key: a request is refused when the window
  holds \<open>maxRequests\<close> instants or more, and then the recorded instants are as they
  were; it is admitted otherwise, and then the entry is the instants of the window
  followed by \<open>now\<close>.
\<close>

lemma simpleRateLimit_refuses:
  assumes "maxRequests \<le> int (in_window windowMs now key rl)"
  shows "fst (simpleRateLimit maxRequests windowMs key now rl) =
           Some \<lparr>statusCode = 429,
                 json_body = obj [(''error'', str ''Rate limit exceeded. Please try again later.''),
                                  (''retryAfter'', JNum (of_int windowMs))]\<rparr>
         \<and> (rl key \<noteq> None \<longrightarrow> snd (simpleRateLimit maxRequests windowMs key now rl) = rl)
         \<and> (rl key = None \<longrightarrow> snd (simpleRateLimit maxRequests windowMs key now rl) = rl(key \<mapsto> []))"
  using assms by (cases "rl key") (auto simp: simpleRateLimit_def in_window_def Let_def)

lemma simpleRateLimit_admits:
  assumes "int (in_window windowMs now key rl) < maxRequests"
  shows "simpleRateLimit maxRequests windowMs key now rl =
           (None, rl(key \<mapsto> filter (\<lambda>time. now - time < windowMs)
                              (case rl key of None \<Rightarrow> [] | Some r \<Rightarrow> r) @ [now]))"
  using assms by (auto simp: simpleRateLimit_def in_window_def Let_def split: option.splits)

text \<open>A limiter leaves in the window of its key at most \<open>maxRequests\<close> instants, or as many as it found.\<close>

lemma simpleRateLimit_bound:
  "int (in_window windowMs now key (snd (simpleRateLimit maxRequests windowMs key now rl)))
     \<le> max maxRequests (int (in_window windowMs now key rl))"
proof (cases "maxRequests \<le> int (in_window windowMs now key rl)")
  case True
  then show ?thesis
    using simpleRateLimit_refuses [OF True]
    by (cases "rl key") (auto simp: in_window_def)
next
  case False
  then have a: "int (in_window windowMs now key rl) < maxRequests" by simp
  show ?thesis
    using a by (simp add: simpleRateLimit_admits [OF a] in_window_def)
qed

lemma ten_deconstructs_entry:
  "ten_deconstructs ''203.0.113.7'' = Some [0, 1, 2, 3, 4, 5, 6, 7, 8, 9]"
  by (simp add: ten_deconstructs_def deconstructLimiter_def simpleRateLimit_def)

text \<open>
  Claim C10 at its failing input. The three limiters write one map, keyed by the
  address alone. After ten admitted requests to /deconstruct the map holds ten
  instants for the address, all inside the window of the limiter of /simulate, whose
  \<open>maxRequests\<close> is five; and that limiter refuses the first request the address ever
  makes to /simulate.
\<close>

theorem shared_rate_limit_map:
  "ten_deconstructs ''203.0.113.7'' = Some [0, 1, 2, 3, 4, 5, 6, 7, 8, 9]
   \<and> in_window 300000 10 ''203.0.113.7'' ten_deconstructs = 10
   \<and> fst (simulateLimiter ''203.0.113.7'' 10 ten_deconstructs) =
       Some \<lparr>statusCode = 429,
             json_body = obj [(''error'', str ''Rate limit exceeded. Please try again later.''),
                              (''retryAfter'', JNum 300000)]\<rparr>"
  by (simp add: ten_deconstructs_entry in_window_def simulateLimiter_def simpleRateLimit_def)

end
